theory Spec2Isabelle
  imports Complex_Main "HOL-Library.Product_Lexorder" "HOL-Library.Log_Nat"
begin

section \<open>The crowdfunding console application\<close>

text \<open>
  A shallow embedding of \<^verbatim>\<open>src/Python/crowdfunding_app\<close>: \<^verbatim>\<open>validation.py\<close>,
  \<^verbatim>\<open>data_storage.py\<close>, \<^verbatim>\<open>user_auth.py\<close> and \<^verbatim>\<open>project_manager.py\<close>.

  Conventions of the embedding.
  \<^item> A Python \<^verbatim>\<open>str\<close> is a \<open>string\<close>; a \<open>char\<close> stands for the code point of the same
    number, so the strings covered are those of code points below 256.
  \<^item> The module globals \<^verbatim>\<open>users_data\<close>, \<^verbatim>\<open>projects_data\<close> and \<^verbatim>\<open>current_user_email\<close>
    and the two text files are the fields of one \<open>state\<close> record that every operation
    takes and returns.
  \<^item> \<^verbatim>\<open>input()\<close> reads the next element of a list of lines and raises \<^verbatim>\<open>EOFError\<close> on
    the empty list. \<^verbatim>\<open>print\<close> appends to a list of output items; the prompts of
    \<^verbatim>\<open>input\<close> and the emoji that start some messages are not recorded.
  \<^item> An exception that leaves a function is the \<open>Inl\<close> of its result, together with the
    state and the output reached at that moment.
  \<^item> What the Python runtime supplies from outside the program (SHA-256, the clock,
    \<^verbatim>\<open>str\<close> of a float) is a field of the \<open>runtime\<close> record passed to the operations.
\<close>

subsection \<open>Characters and strings\<close>

definition code :: "char \<Rightarrow> nat" where
  "code c = of_char c"

text \<open>\<^verbatim>\<open>str.isspace\<close>, which is also the class \<^verbatim>\<open>\s\<close> of \<^verbatim>\<open>re\<close> on \<^verbatim>\<open>str\<close> patterns.\<close>

definition isspace :: "char \<Rightarrow> bool" where
  "isspace c = (let n = code c in (9 \<le> n \<and> n \<le> 13) \<or> (28 \<le> n \<and> n \<le> 32) \<or> n = 133 \<or> n = 160)"

definition isdigit :: "char \<Rightarrow> bool" where
  "isdigit c = (let n = code c in 48 \<le> n \<and> n \<le> 57)"

definition isalpha :: "char \<Rightarrow> bool" where
  "isalpha c = (let n = code c in
     (65 \<le> n \<and> n \<le> 90) \<or> (97 \<le> n \<and> n \<le> 122) \<or> n = 170 \<or> n = 181 \<or> n = 186 \<or>
     (192 \<le> n \<and> n \<le> 214) \<or> (216 \<le> n \<and> n \<le> 246) \<or> (248 \<le> n \<and> n \<le> 255))"

definition isupper :: "char \<Rightarrow> bool" where
  "isupper c = (let n = code c in
     (65 \<le> n \<and> n \<le> 90) \<or> (192 \<le> n \<and> n \<le> 214) \<or> (216 \<le> n \<and> n \<le> 222))"

definition lower_char :: "char \<Rightarrow> char" where
  "lower_char c = (if isupper c then char_of (code c + 32) else c)"

definition lower :: "string \<Rightarrow> string" where
  "lower s = map lower_char s"

definition strip :: "string \<Rightarrow> string" where
  "strip s = rev (dropWhile isspace (rev (dropWhile isspace s)))"

text \<open>
  \<^verbatim>\<open>float\<close> and \<^verbatim>\<open>int\<close> drop less around a number than \<^verbatim>\<open>str.strip\<close> does: the
  separators 28 to 31 are whitespace for \<^verbatim>\<open>str.isspace\<close> and part of the number for
  them, so that \<^verbatim>\<open>float('\x1c1')\<close> raises \<^verbatim>\<open>ValueError\<close>.
\<close>

definition isspace_number :: "char \<Rightarrow> bool" where
  "isspace_number c = (let n = code c in (9 \<le> n \<and> n \<le> 13) \<or> n = 32 \<or> n = 133 \<or> n = 160)"

definition strip_number :: "string \<Rightarrow> string" where
  "strip_number s = rev (dropWhile isspace_number (rev (dropWhile isspace_number s)))"

text \<open>\<^verbatim>\<open>s.split(sep)\<close> for a one-character separator: n separators give n + 1 pieces.\<close>

fun split_on :: "char \<Rightarrow> string \<Rightarrow> string list" where
  "split_on sep [] = [[]]"
| "split_on sep (c # cs) =
     (if c = sep then [] # split_on sep cs
      else (case split_on sep cs of p # ps \<Rightarrow> (c # p) # ps | [] \<Rightarrow> [[c]]))"

definition LF :: char where
  "LF = CHR 0x0A"

definition CR :: char where
  "CR = CHR 0x0D"

definition bar :: char where
  "bar = CHR ''|''"

subsection \<open>Python floats\<close>

text \<open>
  A float is a finite binary64 value, kept as the rational it denotes, an infinity or
  NaN. The sign of zero is not kept: no comparison or division of the program
  distinguishes the two zeros. \<open>binary64\<close> rounds a rational to the nearest binary64
  value, ties to even, as \<^verbatim>\<open>float()\<close> and the arithmetic do.
\<close>

datatype pyfloat = Fin rat | PInf | NInf | NaN

datatype error = EOFError | ValueError | ZeroDivisionError | KeyError

definition pow2 :: "int \<Rightarrow> rat" where
  "pow2 k = (if 0 \<le> k then 2 ^ nat k else 1 / 2 ^ nat (- k))"

definition floor_log2 :: "rat \<Rightarrow> int" where
  "floor_log2 q = (let (a, b) = quotient_of q;
                       e0 = bitlen a - bitlen b
                   in if pow2 e0 \<le> q then e0 else e0 - 1)"

definition round_half_even :: "rat \<Rightarrow> int" where
  "round_half_even q = (let f = \<lfloor>q\<rfloor>; r = q - of_int f
     in if r < 1 / 2 then f else if 1 / 2 < r then f + 1 else if even f then f else f + 1)"

definition binary64 :: "rat \<Rightarrow> pyfloat" where
  "binary64 q = (if q = 0 then Fin 0 else
     let a = \<bar>q\<bar>;
         e = max (floor_log2 a) (- 1022);
         ulp = pow2 (e - 52);
         v = of_int (round_half_even (a / ulp)) * ulp
     in if pow2 1024 \<le> v then (if 0 < q then PInf else NInf)
        else Fin (if 0 < q then v else - v))"

text \<open>Python's \<^verbatim>\<open>a / b\<close> on floats: a zero divisor raises, before anything else is looked at.\<close>

fun fdiv :: "pyfloat \<Rightarrow> pyfloat \<Rightarrow> error + pyfloat" where
  "fdiv a (Fin b) =
     (if b = 0 then Inl ZeroDivisionError
      else (case a of
              Fin x \<Rightarrow> Inr (binary64 (x / b))
            | PInf \<Rightarrow> Inr (if 0 < b then PInf else NInf)
            | NInf \<Rightarrow> Inr (if 0 < b then NInf else PInf)
            | NaN \<Rightarrow> Inr NaN))"
| "fdiv a NaN = Inr NaN"
| "fdiv (Fin x) b = Inr (Fin 0)"
| "fdiv a b = Inr NaN"

fun fmul :: "pyfloat \<Rightarrow> pyfloat \<Rightarrow> pyfloat" where
  "fmul (Fin x) (Fin y) = binary64 (x * y)"
| "fmul NaN b = NaN"
| "fmul a NaN = NaN"
| "fmul (Fin x) b = (if x = 0 then NaN else if (0 < x) = (b = PInf) then PInf else NInf)"
| "fmul a (Fin y) = (if y = 0 then NaN else if (0 < y) = (a = PInf) then PInf else NInf)"
| "fmul a b = (if a = b then PInf else NInf)"

text \<open>The comparisons \<^verbatim>\<open><=\<close>, \<^verbatim>\<open><\<close> and \<^verbatim>\<open>==\<close>: every comparison with NaN is false.\<close>

fun fle :: "pyfloat \<Rightarrow> pyfloat \<Rightarrow> bool" where
  "fle NaN b = False"
| "fle a NaN = False"
| "fle NInf b = True"
| "fle a PInf = True"
| "fle (Fin x) (Fin y) = (x \<le> y)"
| "fle a b = False"

definition feq :: "pyfloat \<Rightarrow> pyfloat \<Rightarrow> bool" where
  "feq a b = (a \<noteq> NaN \<and> b \<noteq> NaN \<and> a = b)"

definition flt :: "pyfloat \<Rightarrow> pyfloat \<Rightarrow> bool" where
  "flt a b = (fle a b \<and> \<not> feq a b)"

text \<open>
  The builtin \<^verbatim>\<open>float(s)\<close> on a string, after CPython: an underscore stands only
  between two digits; the whitespace around the number is dropped; then an optional sign and
  either \<^verbatim>\<open>inf\<close>, \<^verbatim>\<open>infinity\<close> or \<^verbatim>\<open>nan\<close> in any letter case, or a decimal number with
  at least one digit, an optional fraction and an optional exponent. \<open>None\<close> is
  \<^verbatim>\<open>ValueError\<close>.
\<close>

fun underscores_ok :: "char option \<Rightarrow> string \<Rightarrow> bool" where
  "underscores_ok prev [] = True"
| "underscores_ok prev (c # cs) =
     (if c = CHR ''_''
      then (case prev of Some p \<Rightarrow> isdigit p | None \<Rightarrow> False) \<and>
           (case cs of d # _ \<Rightarrow> isdigit d | [] \<Rightarrow> False) \<and> underscores_ok (Some c) cs
      else underscores_ok (Some c) cs)"

definition digits_val :: "string \<Rightarrow> int" where
  "digits_val ds = foldl (\<lambda>n c. 10 * n + (int (code c) - 48)) 0 ds"

definition parse_exponent :: "string \<Rightarrow> int option" where
  "parse_exponent es =
     (let (neg, ds) = (case es of
                         c # r \<Rightarrow> if c = CHR ''-'' then (True, r)
                                  else if c = CHR ''+'' then (False, r) else (False, es)
                       | [] \<Rightarrow> (False, []))
      in if ds \<noteq> [] \<and> list_all isdigit ds
         then Some (if neg then - digits_val ds else digits_val ds)
         else None)"

definition pow10 :: "int \<Rightarrow> rat" where
  "pow10 k = (if 0 \<le> k then 10 ^ nat k else 1 / 10 ^ nat (- k))"

definition parse_unsigned :: "string \<Rightarrow> rat option" where
  "parse_unsigned u =
     (let is_e = (\<lambda>c. c = CHR ''e'' \<or> c = CHR ''E'');
          mant = takeWhile (\<lambda>c. \<not> is_e c) u;
          etail = dropWhile (\<lambda>c. \<not> is_e c) u;
          ip = takeWhile isdigit mant;
          rest = dropWhile isdigit mant;
          frac = (case rest of
                    [] \<Rightarrow> Some []
                  | c # r \<Rightarrow> if c = CHR ''.'' \<and> list_all isdigit r then Some r else None);
          ex = (case etail of [] \<Rightarrow> Some 0 | _ # es \<Rightarrow> parse_exponent es)
      in case (frac, ex) of
           (Some fp, Some k) \<Rightarrow>
             if ip = [] \<and> fp = [] then None
             else Some (of_int (digits_val (ip @ fp)) * pow10 (k - int (length fp)))
         | _ \<Rightarrow> None)"

definition py_float :: "string \<Rightarrow> pyfloat option" where
  "py_float s =
     (if \<not> underscores_ok None s then None
      else let t = strip_number (filter (\<lambda>c. c \<noteq> CHR ''_'') s);
               (neg, u) = (case t of
                             c # r \<Rightarrow> if c = CHR ''-'' then (True, r)
                                      else if c = CHR ''+'' then (False, r) else (False, t)
                           | [] \<Rightarrow> (False, []))
           in if lower u = ''inf'' \<or> lower u = ''infinity'' then Some (if neg then NInf else PInf)
              else if lower u = ''nan'' then Some NaN
              else map_option (\<lambda>q. binary64 (if neg then - q else q)) (parse_unsigned u))"

subsection \<open>Dates\<close>

text \<open>
  A \<^verbatim>\<open>date\<close> is (year, month, day) and a \<^verbatim>\<open>datetime\<close> adds (hour, minute, second,
  microsecond). Python compares both field by field in this order, which is the
  lexicographic order of the tuples.
\<close>

type_synonym date = "nat \<times> nat \<times> nat"

type_synonym datetime = "date \<times> nat \<times> nat \<times> nat \<times> nat"

definition is_leap :: "nat \<Rightarrow> bool" where
  "is_leap y = (y mod 4 = 0 \<and> (y mod 100 \<noteq> 0 \<or> y mod 400 = 0))"

definition days_in_month :: "nat \<Rightarrow> nat \<Rightarrow> nat" where
  "days_in_month y m =
     (if m = 2 then (if is_leap y then 29 else 28)
      else if m = 4 \<or> m = 6 \<or> m = 9 \<or> m = 11 then 30 else 31)"

definition valid_date :: "date \<Rightarrow> bool" where
  "valid_date dt = (case dt of (y, m, d) \<Rightarrow>
     1 \<le> y \<and> y \<le> 9999 \<and> 1 \<le> m \<and> m \<le> 12 \<and> 1 \<le> d \<and> d \<le> days_in_month y m)"

definition digit_of :: "char \<Rightarrow> nat" where
  "digit_of c = code c - 48"

definition in_range :: "char \<Rightarrow> char \<Rightarrow> char \<Rightarrow> bool" where
  "in_range a b c = (code a \<le> code c \<and> code c \<le> code b)"

text \<open>The directive \<^verbatim>\<open>%m\<close> of \<^verbatim>\<open>strptime\<close>: \<^verbatim>\<open>1[0-2]|0[1-9]|[1-9]\<close>.\<close>

definition month_field :: "string \<Rightarrow> nat option" where
  "month_field s =
     (case s of
        [a] \<Rightarrow> if in_range CHR ''1'' CHR ''9'' a then Some (digit_of a) else None
      | [a, b] \<Rightarrow>
          if (a = CHR ''1'' \<and> in_range CHR ''0'' CHR ''2'' b) \<or>
             (a = CHR ''0'' \<and> in_range CHR ''1'' CHR ''9'' b)
          then Some (10 * digit_of a + digit_of b) else None
      | _ \<Rightarrow> None)"

text \<open>The directive \<^verbatim>\<open>%d\<close>: \<^verbatim>\<open>3[01]|[12]\d|0[1-9]|[1-9]| [1-9]\<close>.\<close>

definition day_field :: "string \<Rightarrow> nat option" where
  "day_field s =
     (case s of
        [a] \<Rightarrow> if in_range CHR ''1'' CHR ''9'' a then Some (digit_of a) else None
      | [a, b] \<Rightarrow>
          if (a = CHR ''3'' \<and> in_range CHR ''0'' CHR ''1'' b) \<or>
             (in_range CHR ''1'' CHR ''2'' a \<and> isdigit b) \<or>
             (a = CHR ''0'' \<and> in_range CHR ''1'' CHR ''9'' b)
          then Some (10 * digit_of a + digit_of b)
          else if a = CHR '' '' \<and> in_range CHR ''1'' CHR ''9'' b then Some (digit_of b)
          else None
      | _ \<Rightarrow> None)"

text \<open>
  \<^verbatim>\<open>datetime.strptime(s, '%Y-%m-%d')\<close>: four digits, a hyphen, the month, a hyphen, the
  day, nothing else; then the date must exist (year 1 to 9999, the day within its
  month). \<open>None\<close> is \<^verbatim>\<open>ValueError\<close>.
\<close>

definition strptime_ymd :: "string \<Rightarrow> date option" where
  "strptime_ymd s =
     (case s of
        y1 # y2 # y3 # y4 # h # rest \<Rightarrow>
          if list_all isdigit [y1, y2, y3, y4] \<and> h = CHR ''-''
          then (let ms = takeWhile (\<lambda>c. c \<noteq> CHR ''-'') rest;
                    after_month = dropWhile (\<lambda>c. c \<noteq> CHR ''-'') rest
                in case after_month of
                     [] \<Rightarrow> None
                   | _ # ds \<Rightarrow>
                       (case (month_field ms, day_field ds) of
                          (Some m, Some d) \<Rightarrow>
                            (let y = 1000 * digit_of y1 + 100 * digit_of y2 + 10 * digit_of y3 + digit_of y4
                             in if valid_date (y, m, d) then Some (y, m, d) else None)
                        | _ \<Rightarrow> None))
          else None
      | _ \<Rightarrow> None)"

definition midnight :: "date \<Rightarrow> datetime" where
  "midnight d = (d, 0, 0, 0, 0)"

subsection \<open>Regular expressions\<close>

text \<open>
  The patterns of \<^verbatim>\<open>validation.py\<close> use character classes, concatenation, alternatives
  and repetition only, so \<^verbatim>\<open>re.match\<close> decides membership in a regular language; the
  matcher works by derivatives. \<open>re_match\<close> is \<^verbatim>\<open>re.match('^' + r + '$', s)\<close>: the \<^verbatim>\<open>$\<close>
  of Python also matches before a newline that ends the string.
\<close>

datatype rexp = Zero | Eps | Sym "char \<Rightarrow> bool" | Alt rexp rexp | Seq rexp rexp | Star rexp

fun nullable :: "rexp \<Rightarrow> bool" where
  "nullable Zero = False"
| "nullable Eps = True"
| "nullable (Sym P) = False"
| "nullable (Alt r s) = (nullable r \<or> nullable s)"
| "nullable (Seq r s) = (nullable r \<and> nullable s)"
| "nullable (Star r) = True"

fun deriv :: "char \<Rightarrow> rexp \<Rightarrow> rexp" where
  "deriv c Zero = Zero"
| "deriv c Eps = Zero"
| "deriv c (Sym P) = (if P c then Eps else Zero)"
| "deriv c (Alt r s) = Alt (deriv c r) (deriv c s)"
| "deriv c (Seq r s) =
     (if nullable r then Alt (Seq (deriv c r) s) (deriv c s) else Seq (deriv c r) s)"
| "deriv c (Star r) = Seq (deriv c r) (Star r)"

definition full_match :: "rexp \<Rightarrow> string \<Rightarrow> bool" where
  "full_match r s = nullable (foldl (\<lambda>q c. deriv c q) r s)"

definition re_match :: "rexp \<Rightarrow> string \<Rightarrow> bool" where
  "re_match r s = (full_match r s \<or> (s \<noteq> [] \<and> last s = LF \<and> full_match r (butlast s)))"

fun lit :: "string \<Rightarrow> rexp" where
  "lit [] = Eps"
| "lit (c # cs) = Seq (Sym (\<lambda>x. x = c)) (lit cs)"

definition opt :: "rexp \<Rightarrow> rexp" where
  "opt r = Alt r Eps"

definition many1 :: "rexp \<Rightarrow> rexp" where
  "many1 r = Seq r (Star r)"

fun times :: "nat \<Rightarrow> rexp \<Rightarrow> rexp" where
  "times 0 r = Eps"
| "times (Suc n) r = Seq r (times n r)"

definition one_of :: "string \<Rightarrow> char \<Rightarrow> bool" where
  "one_of cs c = (c \<in> set cs)"

definition ascii_letter :: "char \<Rightarrow> bool" where
  "ascii_letter c = (in_range CHR ''a'' CHR ''z'' c \<or> in_range CHR ''A'' CHR ''Z'' c)"

subsection \<open>validation.py\<close>

definition country_code :: rexp where
  "country_code = opt (Alt (lit ''+20'') (Alt (lit ''0020'') (lit ''20'')))"

text \<open>\<^verbatim>\<open>^(\+20|0020|20)?01[0125][0-9]{8}$\<close> and \<^verbatim>\<open>^(\+20|0020|20)?02[0-9]{8}$\<close>.\<close>

definition mobile_pattern :: rexp where
  "mobile_pattern = Seq country_code (Seq (lit ''01'') (Seq (Sym (one_of ''0125'')) (times 8 (Sym isdigit))))"

definition landline_pattern :: rexp where
  "landline_pattern = Seq country_code (Seq (lit ''02'') (times 8 (Sym isdigit)))"

definition validate_egyptian_phone :: "string \<Rightarrow> bool" where
  "validate_egyptian_phone phone =
     (let patterns = [mobile_pattern, landline_pattern];
          phone' = filter (\<lambda>c. \<not> (isspace c \<or> c = CHR ''-'' \<or> c = CHR ''('' \<or> c = CHR '')'')) phone
      in list_ex (\<lambda>pattern. re_match pattern phone') patterns)"

text \<open>\<^verbatim>\<open>^[a-zA-Z0-9._%+-]+@[a-zA-Z0-9.-]+\.[a-zA-Z]{2,}$\<close>.\<close>

definition email_pattern :: rexp where
  "email_pattern =
     Seq (many1 (Sym (\<lambda>c. ascii_letter c \<or> isdigit c \<or> one_of ''._%+-'' c)))
      (Seq (lit ''@'')
        (Seq (many1 (Sym (\<lambda>c. ascii_letter c \<or> isdigit c \<or> one_of ''.-'' c)))
          (Seq (lit ''.'') (Seq (times 2 (Sym ascii_letter)) (Star (Sym ascii_letter))))))"

definition validate_email :: "string \<Rightarrow> bool" where
  "validate_email email = re_match email_pattern email"

definition validate_date :: "string \<Rightarrow> bool" where
  "validate_date date_str = (strptime_ymd date_str \<noteq> None)"

text \<open>
  \<^verbatim>\<open>validate_name\<close> returns \<^verbatim>\<open>False\<close> or the stripped name; its callers only test the
  result for truth, which is what the model returns.
\<close>

definition validate_name :: "string \<Rightarrow> bool" where
  "validate_name name =
     (if name = [] \<or> strip name = [] then False
      else list_all (\<lambda>char. isalpha char \<or> isspace char) (strip name) \<and> strip name \<noteq> [])"

text \<open>
  \<^verbatim>\<open>validate_date_range\<close>; \<open>now\<close> is the value \<^verbatim>\<open>datetime.now()\<close> returns when the
  function calls it. The bare \<^verbatim>\<open>except\<close> turns the \<^verbatim>\<open>ValueError\<close> of either
  \<^verbatim>\<open>strptime\<close> into the third result.
\<close>

definition validate_date_range :: "datetime \<Rightarrow> string \<Rightarrow> string \<Rightarrow> bool \<times> string" where
  "validate_date_range now start_date end_date =
     (case strptime_ymd start_date of
        None \<Rightarrow> (False, ''Invalid date format!'')
      | Some start_d \<Rightarrow>
          (case strptime_ymd end_date of
             None \<Rightarrow> (False, ''Invalid date format!'')
           | Some end_d \<Rightarrow>
               (let start_dt = midnight start_d; end_dt = midnight end_d
                in if start_dt \<ge> end_dt then (False, ''End date must be after start date!'')
                   else if start_dt < now then (False, ''Start date cannot be in the past!'')
                   else (True, []))))"

subsection \<open>The data model\<close>

text \<open>
  The two kinds of dictionary the program builds are records. \<^verbatim>\<open>users_data\<close> is a
  Python \<^verbatim>\<open>dict\<close>, which keeps its keys in insertion order: an association list whose
  keys are distinct, read with \<open>dict_get\<close> and written with \<open>dict_set\<close>.
\<close>

record user =
  first_name :: string
  last_name :: string
  email :: string
  password_hash :: string
  mobile :: string
  is_active :: bool
  created_at :: string

record project =
  title :: string
  details :: string
  total_target :: pyfloat
  start_date :: string
  end_date :: string
  owner_email :: string
  project_created_at :: string
  current_amount :: pyfloat

text \<open>
  A file is absent, or opening or reading it raises (\<open>Unreadable\<close>), or it has a
  text. Writing a file is taken to succeed.
\<close>

datatype text_file = Absent | Unreadable | Content string

record state =
  users_data :: "(string \<times> user) list"
  projects_data :: "project list"
  current_user_email :: "string option"
  users_file :: text_file
  projects_file :: text_file

text \<open>
  What the Python runtime supplies: \<^verbatim>\<open>hashlib.sha256(s.encode()).hexdigest()\<close>, \<^verbatim>\<open>str\<close> of
  a float (the format of a float in an f-string), the value of \<^verbatim>\<open>datetime.now()\<close> and
  the text of \<^verbatim>\<open>datetime.now().isoformat()\<close>.
\<close>

record runtime =
  sha256_hex :: "string \<Rightarrow> string"
  str_float :: "pyfloat \<Rightarrow> string"
  now_dt :: datetime
  now_iso :: string

datatype printed =
    Print string
  | ListLine nat project
  | ProjectEntry nat project pyfloat
  | MyProjectEntry nat project pyfloat

type_synonym 'a outcome = "(error + 'a) \<times> state \<times> printed list"

definition dict_get :: "(string \<times> 'v) list \<Rightarrow> string \<Rightarrow> 'v option" where
  "dict_get d k = map_of d k"

fun dict_set :: "(string \<times> 'v) list \<Rightarrow> string \<Rightarrow> 'v \<Rightarrow> (string \<times> 'v) list" where
  "dict_set [] k v = [(k, v)]"
| "dict_set ((k', v') # d) k v = (if k' = k then (k, v) # d else (k', v') # dict_set d k v)"

text \<open>\<^verbatim>\<open>input()\<close>: the next line, or \<^verbatim>\<open>EOFError\<close> with the state and output so far.\<close>

definition read :: "string list \<Rightarrow> state \<Rightarrow> printed list \<Rightarrow> (string \<Rightarrow> string list \<Rightarrow> 'a outcome) \<Rightarrow> 'a outcome" where
  "read inp st out k = (case inp of [] \<Rightarrow> (Inl EOFError, st, out) | l # ls \<Rightarrow> k l ls)"

text \<open>
  \<^verbatim>\<open>int(s)\<close> on a string: whitespace around it dropped, an optional sign, decimal
  digits, an underscore only between two digits.
\<close>

definition py_int :: "string \<Rightarrow> int option" where
  "py_int s =
     (if \<not> underscores_ok None s then None
      else let t = strip_number (filter (\<lambda>c. c \<noteq> CHR ''_'') s);
               (neg, ds) = (case t of
                              c # r \<Rightarrow> if c = CHR ''-'' then (True, r)
                                       else if c = CHR ''+'' then (False, r) else (False, t)
                            | [] \<Rightarrow> (False, []))
           in if ds \<noteq> [] \<and> list_all isdigit ds
              then Some (if neg then - digits_val ds else digits_val ds) else None)"

subsection \<open>data\_storage.py\<close>

text \<open>
  A file opened in text mode is read with universal newlines: \<^verbatim>\<open>\r\n\<close> and \<^verbatim>\<open>\r\<close> both
  end a line as \<^verbatim>\<open>\n\<close> does. The loop strips every line, so \<open>file_lines\<close> leaves the
  line ends out.
\<close>

fun universal_newlines :: "string \<Rightarrow> string" where
  "universal_newlines [] = []"
| "universal_newlines [c] = (if c = CR then [LF] else [c])"
| "universal_newlines (c # d # cs) =
     (if c = CR then (if d = LF then LF # universal_newlines cs else LF # universal_newlines (d # cs))
      else c # universal_newlines (d # cs))"

definition file_lines :: "string \<Rightarrow> string list" where
  "file_lines text = split_on LF (universal_newlines text)"

definition load_users :: "string list \<Rightarrow> (string \<times> user) list" where
  "load_users lines =
     foldl (\<lambda>loaded line0.
              let line = strip line0
              in if line \<noteq> []
                 then (let parts = split_on bar line
                       in if length parts = 7
                          then dict_set loaded (parts ! 0)
                                 \<lparr>first_name = parts ! 1, last_name = parts ! 2, email = parts ! 0,
                                  password_hash = parts ! 3, mobile = parts ! 4,
                                  is_active = (lower (parts ! 5) = ''true''), created_at = parts ! 6\<rparr>
                          else loaded)
                 else loaded)
       [] lines"

fun load_projects :: "string list \<Rightarrow> project list \<Rightarrow> error + project list" where
  "load_projects [] loaded = Inr loaded"
| "load_projects (line0 # lines) loaded =
     (let line = strip line0
      in if line \<noteq> []
         then (let parts = split_on bar line
               in if length parts = 8
                  then (case py_float (parts ! 2) of
                          None \<Rightarrow> Inl ValueError
                        | Some target \<Rightarrow>
                            (case py_float (parts ! 7) of
                               None \<Rightarrow> Inl ValueError
                             | Some amount \<Rightarrow>
                                 load_projects lines
                                   (loaded @
                                    [\<lparr>title = parts ! 0, details = parts ! 1, total_target = target,
                                      start_date = parts ! 3, end_date = parts ! 4,
                                      owner_email = parts ! 5, project_created_at = parts ! 6,
                                      current_amount = amount\<rparr>])))
                  else load_projects lines loaded)
         else load_projects lines loaded)"

definition load_data :: "state \<Rightarrow> state" where
  "load_data st =
     (let st1 = (case users_file st of
                   Absent \<Rightarrow> st
                 | Unreadable \<Rightarrow> st\<lparr>users_data := []\<rparr>
                 | Content text \<Rightarrow> st\<lparr>users_data := load_users (file_lines text)\<rparr>)
      in case projects_file st1 of
           Absent \<Rightarrow> st1
         | Unreadable \<Rightarrow> st1\<lparr>projects_data := []\<rparr>
         | Content text \<Rightarrow>
             (case load_projects (file_lines text) [] of
                Inl e \<Rightarrow> st1\<lparr>projects_data := []\<rparr>
              | Inr ps \<Rightarrow> st1\<lparr>projects_data := ps\<rparr>))"

definition str_bool :: "bool \<Rightarrow> string" where
  "str_bool b = (if b then ''True'' else ''False'')"

definition user_line :: "user \<Rightarrow> string" where
  "user_line u =
     email u @ bar # first_name u @ bar # last_name u @ bar # password_hash u @ bar #
     mobile u @ bar # str_bool (is_active u) @ bar # created_at u @ [LF]"

definition project_line :: "runtime \<Rightarrow> project \<Rightarrow> string" where
  "project_line rt p =
     title p @ bar # details p @ bar # str_float rt (total_target p) @ bar # start_date p @ bar #
     end_date p @ bar # owner_email p @ bar # project_created_at p @ bar #
     str_float rt (current_amount p) @ [LF]"

definition save_data :: "runtime \<Rightarrow> state \<Rightarrow> state" where
  "save_data rt st =
     st\<lparr>users_file := Content (concat (map (\<lambda>(k, u). user_line u) (users_data st))),
        projects_file := Content (concat (map (project_line rt) (projects_data st)))\<rparr>"

definition get_current_user :: "state \<Rightarrow> user option" where
  "get_current_user st =
     (case current_user_email st of
        None \<Rightarrow> None
      | Some e \<Rightarrow> if e \<noteq> [] \<and> dict_get (users_data st) e \<noteq> None
                  then dict_get (users_data st) e else None)"

definition set_current_user :: "state \<Rightarrow> string \<Rightarrow> state" where
  "set_current_user st e = st\<lparr>current_user_email := Some e\<rparr>"

definition clear_current_user :: "state \<Rightarrow> state" where
  "clear_current_user st = st\<lparr>current_user_email := None\<rparr>"

text \<open>A new process: empty registries, nobody logged in, the files as they are.\<close>

definition fresh_process :: "state \<Rightarrow> state" where
  "fresh_process st = st\<lparr>users_data := [], projects_data := [], current_user_email := None\<rparr>"

subsection \<open>user\_auth.py\<close>

definition hash_password :: "runtime \<Rightarrow> string \<Rightarrow> string" where
  "hash_password rt password = sha256_hex rt password"

definition verify_password :: "runtime \<Rightarrow> string \<Rightarrow> string \<Rightarrow> bool" where
  "verify_password rt stored_hash password = (stored_hash = hash_password rt password)"

definition create_user :: "runtime \<Rightarrow> string \<Rightarrow> string \<Rightarrow> string \<Rightarrow> string \<Rightarrow> string \<Rightarrow> user" where
  "create_user rt first_name' last_name' email' password mobile' =
     \<lparr>first_name = first_name', last_name = last_name', email = email',
      password_hash = hash_password rt password, mobile = mobile',
      is_active = False, created_at = now_iso rt\<rparr>"

definition register_user :: "runtime \<Rightarrow> state \<Rightarrow> string list \<Rightarrow> bool outcome" where
  "register_user rt st inp =
     (let out = [Print (LF # ''=== REGISTRATION ==='')] in
      read inp st out (\<lambda>l inp. let first_name' = strip l in
      if \<not> validate_name first_name'
      then (Inr False, st, out @ [Print ''First name must contain only letters and spaces!''])
      else read inp st out (\<lambda>l inp. let last_name' = strip l in
      if \<not> validate_name last_name'
      then (Inr False, st, out @ [Print ''Last name must contain only letters and spaces!''])
      else read inp st out (\<lambda>l inp. let email' = lower (strip l) in
      if \<not> validate_email email'
      then (Inr False, st, out @ [Print ''Invalid email format!''])
      else if dict_get (users_data st) email' \<noteq> None
      then (Inr False, st, out @ [Print ''Email already exists!''])
      else read inp st out (\<lambda>l inp. let password = strip l in
      if length password < 6
      then (Inr False, st, out @ [Print ''Password must be at least 6 characters!''])
      else read inp st out (\<lambda>l inp. let confirm_password = strip l in
      if password \<noteq> confirm_password
      then (Inr False, st, out @ [Print ''Passwords don't match!''])
      else read inp st out (\<lambda>l inp. let mobile' = strip l in
      if \<not> validate_egyptian_phone mobile'
      then (Inr False, st, out @ [Print ''Invalid Egyptian phone number format!''])
      else
        let user = create_user rt first_name' last_name' email' password mobile';
            st1 = save_data rt (st\<lparr>users_data := dict_set (users_data st) email' user\<rparr>);
            out1 = out @ [Print ''Registration successful!'',
                          Print ''Account created but not activated. Please activate your account to login.'']
        in read inp st1 out1 (\<lambda>l inp. let activate = lower l in
           if activate = ''y''
           then (case dict_get (users_data st1) email' of
                   None \<Rightarrow> (Inl KeyError, st1, out1)
                 | Some u \<Rightarrow>
                     (Inr True,
                      save_data rt (st1\<lparr>users_data := dict_set (users_data st1) email' (u\<lparr>is_active := True\<rparr>)\<rparr>),
                      out1 @ [Print ''Account activated!'']))
           else (Inr True, st1, out1)))))))))"

definition login_user :: "runtime \<Rightarrow> state \<Rightarrow> string list \<Rightarrow> bool outcome" where
  "login_user rt st inp =
     (let out = [Print (LF # ''=== LOGIN ==='')] in
      read inp st out (\<lambda>l inp. let email' = lower (strip l) in
      read inp st out (\<lambda>l inp. let password = strip l in
      case dict_get (users_data st) email' of
        None \<Rightarrow> (Inr False, st, out @ [Print ''Email not found!''])
      | Some user \<Rightarrow>
          if \<not> is_active user
          then (Inr False, st, out @ [Print ''Account not activated!''])
          else if \<not> verify_password rt (password_hash user) password
          then (Inr False, st, out @ [Print ''Invalid password!''])
          else (Inr True, set_current_user st email',
                out @ [Print (''Welcome, '' @ first_name user @ '' '' @ last_name user @ ''!'')]))))"

definition logout_user :: "state \<Rightarrow> unit outcome" where
  "logout_user st = (Inr (), clear_current_user st, [Print ''Logged out successfully!''])"

subsection \<open>project\_manager.py\<close>

definition create_project_data :: "runtime \<Rightarrow> string \<Rightarrow> string \<Rightarrow> pyfloat \<Rightarrow> string \<Rightarrow> string \<Rightarrow> string \<Rightarrow> project" where
  "create_project_data rt title' details' total_target' start_date' end_date' owner_email' =
     \<lparr>title = title', details = details', total_target = total_target',
      start_date = start_date', end_date = end_date', owner_email = owner_email',
      project_created_at = now_iso rt, current_amount = Fin 0\<rparr>"

definition create_new_project :: "runtime \<Rightarrow> state \<Rightarrow> string list \<Rightarrow> bool outcome" where
  "create_new_project rt st inp =
     (case get_current_user st of
        None \<Rightarrow> (Inr False, st, [Print ''Please login first!''])
      | Some current_user \<Rightarrow>
      let out = [Print (LF # ''=== CREATE PROJECT ==='')] in
      read inp st out (\<lambda>l inp. let title' = strip l in
      if title' = [] then (Inr False, st, out @ [Print ''Title cannot be empty!''])
      else read inp st out (\<lambda>l inp. let details' = strip l in
      if details' = [] then (Inr False, st, out @ [Print ''Details cannot be empty!''])
      else read inp st out (\<lambda>l inp.
      case py_float l of
        None \<Rightarrow> (Inr False, st, out @ [Print ''Invalid target amount!''])
      | Some total_target' \<Rightarrow>
      if fle total_target' (Fin 0) then (Inr False, st, out @ [Print ''Target must be positive!''])
      else read inp st out (\<lambda>l inp. let start_date' = strip l in
      if \<not> validate_date start_date' then (Inr False, st, out @ [Print ''Invalid start date format!''])
      else read inp st out (\<lambda>l inp. let end_date' = strip l in
      if \<not> validate_date end_date' then (Inr False, st, out @ [Print ''Invalid end date format!''])
      else
        let (is_valid, error_msg) = validate_date_range (now_dt rt) start_date' end_date' in
        if \<not> is_valid then (Inr False, st, out @ [Print error_msg])
        else
          let project = create_project_data rt title' details' total_target' start_date' end_date'
                          (email current_user);
              st1 = save_data rt (st\<lparr>projects_data := projects_data st @ [project]\<rparr>)
          in (Inr True, st1, out @ [Print ''Project created successfully!''])))))))"

text \<open>
  The loop that prints one block per project, numbered from \<open>i\<close>: the progress is
  \<^verbatim>\<open>(current_amount / total_target) * 100\<close>, and the division raises on a zero target
  after the blocks before it are printed.
\<close>

fun show_projects :: "(nat \<Rightarrow> project \<Rightarrow> pyfloat \<Rightarrow> printed) \<Rightarrow> nat \<Rightarrow> project list \<Rightarrow> printed list \<Rightarrow> (error + unit) \<times> printed list" where
  "show_projects entry i [] out = (Inr (), out)"
| "show_projects entry i (p # ps) out =
     (case fdiv (current_amount p) (total_target p) of
        Inl e \<Rightarrow> (Inl e, out)
      | Inr q \<Rightarrow> show_projects entry (Suc i) ps (out @ [entry i p (fmul q (Fin 100))]))"

definition view_all_projects :: "state \<Rightarrow> unit outcome" where
  "view_all_projects st =
     (let out = [Print (LF # ''=== ALL PROJECTS ==='')] in
      if projects_data st = [] then (Inr (), st, out @ [Print ''No projects available.''])
      else (let (r, out1) = show_projects ProjectEntry 1 (projects_data st) out in (r, st, out1)))"

definition get_user_projects :: "state \<Rightarrow> string \<Rightarrow> project list" where
  "get_user_projects st email' = filter (\<lambda>p. owner_email p = email') (projects_data st)"

definition view_my_projects :: "state \<Rightarrow> unit outcome" where
  "view_my_projects st =
     (case get_current_user st of
        None \<Rightarrow> (Inr (), st, [Print ''Please login first!''])
      | Some current_user \<Rightarrow>
          (let out = [Print (LF # ''=== MY PROJECTS ==='')];
               my_projects = get_user_projects st (email current_user)
           in if my_projects = []
              then (Inr (), st, out @ [Print ''You haven't created any projects yet.''])
              else (let (r, out1) = show_projects MyProjectEntry 1 my_projects out in (r, st, out1))))"

text \<open>
  The list \<^verbatim>\<open>my_projects\<close> holds references to dictionaries of \<^verbatim>\<open>projects_data\<close>, so an
  assignment through \<^verbatim>\<open>my_projects[choice]\<close> changes the registry. A reference is the
  position of the dictionary in \<open>projects_data\<close>: \<open>owned_positions\<close> lists the positions
  that \<^verbatim>\<open>get_user_projects\<close> selects, in the same order.
\<close>

definition owned_positions :: "state \<Rightarrow> string \<Rightarrow> nat list" where
  "owned_positions st email' =
     filter (\<lambda>i. owner_email (projects_data st ! i) = email') [0..<length (projects_data st)]"

definition update_project :: "state \<Rightarrow> nat \<Rightarrow> (project \<Rightarrow> project) \<Rightarrow> state" where
  "update_project st pos f = st\<lparr>projects_data := (projects_data st)[pos := f (projects_data st ! pos)]\<rparr>"

definition list_lines :: "project list \<Rightarrow> printed list" where
  "list_lines my_projects = map (\<lambda>(i, p). ListLine i p) (zip [1..<Suc (length my_projects)] my_projects)"

definition edit_user_project :: "runtime \<Rightarrow> state \<Rightarrow> string list \<Rightarrow> bool outcome" where
  "edit_user_project rt st inp =
     (case get_current_user st of
        None \<Rightarrow> (Inr False, st, [Print ''Please login first!''])
      | Some current_user \<Rightarrow>
      let my_projects = get_user_projects st (email current_user) in
      if my_projects = [] then (Inr False, st, [Print ''You have no projects to edit!''])
      else
      let out = [Print (LF # ''=== EDIT PROJECT ===''), Print ''Your projects:''] @ list_lines my_projects in
      read inp st out (\<lambda>l inp.
      case py_int l of
        None \<Rightarrow> (Inr False, st, out @ [Print ''Invalid input!''])
      | Some n \<Rightarrow>
      let choice = n - 1 in
      if choice < 0 \<or> choice \<ge> int (length my_projects)
      then (Inr False, st, out @ [Print ''Invalid selection!''])
      else
      let pos = owned_positions st (email current_user) ! nat choice;
          out1 = out @ [Print (LF # ''Editing: '' @ title (projects_data st ! pos)),
                        Print ''Press Enter to keep current value.'']
      in
      read inp st out1 (\<lambda>l inp.
      let new_title = strip l;
          st1 = (if new_title \<noteq> [] then update_project st pos (\<lambda>p. p\<lparr>title := new_title\<rparr>) else st)
      in
      read inp st1 out1 (\<lambda>l inp.
      let new_details = strip l;
          st2 = (if new_details \<noteq> [] then update_project st1 pos (\<lambda>p. p\<lparr>details := new_details\<rparr>) else st1)
      in
      read inp st2 out1 (\<lambda>l inp.
      let new_target = strip l;
          (st3, out2) =
            (if new_target \<noteq> []
             then (case py_float new_target of
                     None \<Rightarrow> (st2, out1 @ [Print ''Invalid target format, keeping current value.''])
                   | Some target_value \<Rightarrow>
                       if flt (Fin 0) target_value
                       then (update_project st2 pos (\<lambda>p. p\<lparr>total_target := target_value\<rparr>), out1)
                       else (st2, out1 @ [Print ''Invalid target, keeping current value.'']))
             else (st2, out1))
      in (Inr True, save_data rt st3, out2 @ [Print ''Project updated successfully!'']))))))"

text \<open>
  Equality of two project dictionaries is equality of their values, and two floats that
  are NaN are not equal. \<^verbatim>\<open>list.remove(x)\<close> deletes the first element that is \<^verbatim>\<open>x\<close>
  itself or equal to \<^verbatim>\<open>x\<close>, and raises \<^verbatim>\<open>ValueError\<close> when there is none.
\<close>

definition project_eq :: "project \<Rightarrow> project \<Rightarrow> bool" where
  "project_eq p q =
     (title p = title q \<and> details p = details q \<and> feq (total_target p) (total_target q) \<and>
      start_date p = start_date q \<and> end_date p = end_date q \<and> owner_email p = owner_email q \<and>
      project_created_at p = project_created_at q \<and> feq (current_amount p) (current_amount q))"

definition list_remove :: "project list \<Rightarrow> nat \<Rightarrow> error + project list" where
  "list_remove ps pos =
     (case filter (\<lambda>j. j = pos \<or> project_eq (ps ! j) (ps ! pos)) [0..<length ps] of
        [] \<Rightarrow> Inl ValueError
      | j # _ \<Rightarrow> Inr (take j ps @ drop (Suc j) ps))"

definition delete_user_project :: "runtime \<Rightarrow> state \<Rightarrow> string list \<Rightarrow> bool outcome" where
  "delete_user_project rt st inp =
     (case get_current_user st of
        None \<Rightarrow> (Inr False, st, [Print ''Please login first!''])
      | Some current_user \<Rightarrow>
      let my_projects = get_user_projects st (email current_user) in
      if my_projects = [] then (Inr False, st, [Print ''You have no projects to delete!''])
      else
      let out = [Print (LF # ''=== DELETE PROJECT ===''), Print ''Your projects:''] @ list_lines my_projects in
      read inp st out (\<lambda>l inp.
      case py_int l of
        None \<Rightarrow> (Inr False, st, out @ [Print ''Invalid input!''])
      | Some n \<Rightarrow>
      let choice = n - 1 in
      if choice < 0 \<or> choice \<ge> int (length my_projects)
      then (Inr False, st, out @ [Print ''Invalid selection!''])
      else
      let pos = owned_positions st (email current_user) ! nat choice in
      read inp st out (\<lambda>l inp.
      let confirm = lower l in
      if confirm = ''y''
      then (case list_remove (projects_data st) pos of
              Inl e \<Rightarrow> (Inl e, st, out)
            | Inr ps \<Rightarrow> (Inr True, save_data rt (st\<lparr>projects_data := ps\<rparr>),
                         out @ [Print ''Project deleted successfully!'']))
      else (Inr False, st, out @ [Print ''Deletion cancelled.'']))))"

text \<open>The loop of \<^verbatim>\<open>search_projects_by_date\<close> that collects \<^verbatim>\<open>matching_projects\<close>.\<close>

fun matching_loop :: "date \<Rightarrow> project list \<Rightarrow> project list \<Rightarrow> error + project list" where
  "matching_loop search_date [] matching_projects = Inr matching_projects"
| "matching_loop search_date (p # ps) matching_projects =
     (case strptime_ymd (start_date p) of
        None \<Rightarrow> Inl ValueError
      | Some start_d \<Rightarrow>
          (case strptime_ymd (end_date p) of
             None \<Rightarrow> Inl ValueError
           | Some end_d \<Rightarrow>
               if start_d \<le> search_date \<and> search_date \<le> end_d
               then matching_loop search_date ps (matching_projects @ [p])
               else matching_loop search_date ps matching_projects))"

definition search_projects_by_date :: "state \<Rightarrow> string list \<Rightarrow> unit outcome" where
  "search_projects_by_date st inp =
     (let out = [Print (LF # ''=== SEARCH PROJECTS BY DATE ==='')] in
      read inp st out (\<lambda>l inp. let date_str = strip l in
      if \<not> validate_date date_str then (Inr (), st, out @ [Print ''Invalid date format!''])
      else
      case strptime_ymd date_str of
        None \<Rightarrow> (Inl ValueError, st, out)
      | Some search_date \<Rightarrow>
          (case matching_loop search_date (projects_data st) [] of
             Inl e \<Rightarrow> (Inl e, st, out)
           | Inr matching_projects \<Rightarrow>
               if matching_projects = []
               then (Inr (), st, out @ [Print (''No projects found running on '' @ date_str)])
               else (let out1 = out @ [Print (LF # ''Projects running on '' @ date_str @ '':'')];
                         (r, out2) = show_projects ProjectEntry 1 matching_projects out1
                     in (r, st, out2)))))"

subsection \<open>Sample data and the relations the properties speak of\<close>

text \<open>
  A runtime and a state on which the properties below are run. The stand-in for SHA-256
  prefixes its argument and the stand-in for \<^verbatim>\<open>str\<close> writes the floats of the samples
  (500.0, 1000.0, 0.0 and NaN) as Python does; no property depends on either choice.
\<close>

definition sample_str_float :: "pyfloat \<Rightarrow> string" where
  "sample_str_float x =
     (if x = Fin 500 then ''500.0'' else if x = Fin 1000 then ''1000.0''
      else if x = NaN then ''nan'' else ''0.0'')"

definition sample_runtime :: runtime where
  "sample_runtime =
     \<lparr>sha256_hex = (\<lambda>s. ''sha256:'' @ s), str_float = sample_str_float,
      now_dt = ((2025, 1, 1), 10, 0, 0, 0), now_iso = ''2025-01-01T10:00:00''\<rparr>"

definition ann :: user where
  "ann = \<lparr>first_name = ''Ann'', last_name = ''Lee'', email = ''ann@example.com'',
          password_hash = ''sha256:secret1'', mobile = ''01012345678'', is_active = True,
          created_at = ''2024-12-01T09:00:00''\<rparr>"

definition bob :: user where
  "bob = \<lparr>first_name = ''Bob'', last_name = ''Ray'', email = ''bob@example.com'',
          password_hash = ''sha256:hunter22'', mobile = ''0212345678'', is_active = False,
          created_at = ''2024-12-02T09:00:00''\<rparr>"

definition well :: project where
  "well = \<lparr>title = ''Well'', details = ''A village well'', total_target = Fin 500,
           start_date = ''2025-06-01'', end_date = ''2025-06-30'', owner_email = ''ann@example.com'',
           project_created_at = ''2024-12-03T09:00:00'', current_amount = Fin 0\<rparr>"

definition school :: project where
  "school = \<lparr>title = ''School'', details = ''Books'', total_target = Fin 1000,
             start_date = ''2025-06-15'', end_date = ''2025-07-15'', owner_email = ''bob@example.com'',
             project_created_at = ''2024-12-04T09:00:00'', current_amount = Fin 0\<rparr>"

definition sample_state :: state where
  "sample_state =
     \<lparr>users_data = [(''ann@example.com'', ann), (''bob@example.com'', bob)],
      projects_data = [school, well], current_user_email = None,
      users_file = Absent, projects_file = Absent\<rparr>"

definition sample_registration :: "string list" where
  "sample_registration =
     [''Cleo'', ''Nasr'', '' Cleo@Example.com'', ''opensesame'', ''opensesame'', ''+20 (010) 1234-5678'', ''n'']"

text \<open>
  Two characters are the same letter when they are equal or one is the lower case of
  the other; two inputs are variants of one email when, without the whitespace around
  them, they have the same letters.
\<close>

definition same_letter :: "char \<Rightarrow> char \<Rightarrow> bool" where
  "same_letter c d = (c = d \<or> (isupper c \<and> d = lower_char c) \<or> (isupper d \<and> c = lower_char d))"

definition email_variant :: "string \<Rightarrow> string \<Rightarrow> bool" where
  "email_variant a b = list_all2 same_letter (strip a) (strip b)"

text \<open>
  A project runs on a date when the date lies between its parsed start and end dates,
  both included. \<open>shown\<close> collects the projects of the blocks that were printed.
\<close>

definition running_on :: "date \<Rightarrow> project \<Rightarrow> bool" where
  "running_on d p =
     (case (strptime_ymd (start_date p), strptime_ymd (end_date p)) of
        (Some s, Some e) \<Rightarrow> s \<le> d \<and> d \<le> e
      | _ \<Rightarrow> False)"

fun shown :: "printed list \<Rightarrow> project list" where
  "shown [] = []"
| "shown (ProjectEntry i p x # out) = p # shown out"
| "shown (MyProjectEntry i p x # out) = p # shown out"
| "shown (_ # out) = shown out"

text \<open>
  The fields of a line of a file, and the records \<^verbatim>\<open>load_data\<close> builds from the fields
  of a line that has the right number of them.
\<close>

definition line_fields :: "string \<Rightarrow> string list" where
  "line_fields line = split_on bar (strip line)"

definition user_of_fields :: "string list \<Rightarrow> user" where
  "user_of_fields parts =
     \<lparr>first_name = parts ! 1, last_name = parts ! 2, email = parts ! 0,
      password_hash = parts ! 3, mobile = parts ! 4,
      is_active = (lower (parts ! 5) = ''true''), created_at = parts ! 6\<rparr>"

definition project_of_fields :: "string list \<Rightarrow> project" where
  "project_of_fields parts =
     \<lparr>title = parts ! 0, details = parts ! 1, total_target = the (py_float (parts ! 2)),
      start_date = parts ! 3, end_date = parts ! 4, owner_email = parts ! 5,
      project_created_at = parts ! 6, current_amount = the (py_float (parts ! 7))\<rparr>"

definition numeric_fields :: "string list \<Rightarrow> bool" where
  "numeric_fields parts = (py_float (parts ! 2) \<noteq> None \<and> py_float (parts ! 7) \<noteq> None)"

definition sample_users_text :: string where
  "sample_users_text =
     ''ann@example.com|Ann|Lee|sha256:secret1|01012345678|True|2024-12-01T09:00:00'' @ [LF] @
     ''a line with|three fields|only'' @ [LF] @ [LF] @
     ''bob@example.com|Bob|Ray|sha256:hunter22|0212345678|False|2024-12-02T09:00:00'' @ [LF]"

definition sample_projects_text :: string where
  "sample_projects_text =
     ''too|few'' @ [LF] @
     ''Well|A village well|500.0|2025-06-01|2025-06-30|ann@example.com|2024-12-03T09:00:00|0.0'' @ [LF]"

definition sample_broken_projects_text :: string where
  "sample_broken_projects_text =
     ''Well|A village well|500.0|2025-06-01|2025-06-30|ann@example.com|2024-12-03T09:00:00|0.0'' @ [LF] @
     ''School|Books|a lot|2025-06-15|2025-07-15|bob@example.com|2024-12-04T09:00:00|0.0'' @ [LF]"

text \<open>
  A projects file with a line whose target is \<^verbatim>\<open>0\<close>, and the state of a process that
  has loaded it: \<^verbatim>\<open>float\<close> reads the target as zero and nothing in \<^verbatim>\<open>load_data\<close> looks
  at its value.
\<close>

definition pantry :: project where
  "pantry = \<lparr>title = ''Pantry'', details = ''Food'', total_target = Fin 0,
             start_date = ''2025-06-01'', end_date = ''2025-06-30'', owner_email = ''ann@example.com'',
             project_created_at = ''2024-12-05T09:00:00'', current_amount = Fin 0\<rparr>"

definition pantry_text :: string where
  "pantry_text =
     ''School|Books|1000.0|2025-06-15|2025-07-15|bob@example.com|2024-12-04T09:00:00|0.0'' @ [LF] @
     ''Pantry|Food|0|2025-06-01|2025-06-30|ann@example.com|2024-12-05T09:00:00|0.0'' @ [LF]"

definition pantry_state :: state where
  "pantry_state = sample_state\<lparr>projects_data := [school, pantry], projects_file := Content pantry_text\<rparr>"

text \<open>
  The language of a regular expression, against which the matcher is proved, and the
  shape of a phone number in the words of the specification: an optional country code
  (\<^verbatim>\<open>+20\<close>, \<^verbatim>\<open>0020\<close> or \<^verbatim>\<open>20\<close>), then a mobile prefix (010, 011, 012 or 015) or the
  landline prefix 02, then 8 digits.
\<close>

inductive_set star :: "string set \<Rightarrow> string set" for A :: "string set" where
  star_empty: "[] \<in> star A"
| star_step: "u \<in> A \<Longrightarrow> v \<in> star A \<Longrightarrow> u @ v \<in> star A"

fun lang :: "rexp \<Rightarrow> string set" where
  "lang Zero = {}"
| "lang Eps = {[]}"
| "lang (Sym P) = {[c] | c. P c}"
| "lang (Alt r s) = lang r \<union> lang s"
| "lang (Seq r s) = {u @ v | u v. u \<in> lang r \<and> v \<in> lang s}"
| "lang (Star r) = star (lang r)"

definition shaped :: "string \<Rightarrow> string \<Rightarrow> string \<Rightarrow> bool" where
  "shaped cc prefix t =
     (take (length (cc @ prefix)) t = cc @ prefix \<and> length t = length (cc @ prefix) + 8 \<and>
      list_all isdigit (drop (length (cc @ prefix)) t))"

definition country_codes :: "string list" where
  "country_codes = [''+20'', ''0020'', ''20'']"

definition mobile_prefixes :: "string list" where
  "mobile_prefixes = [''010'', ''011'', ''012'', ''015'']"

definition landline_prefix :: string where
  "landline_prefix = ''02''"

definition egyptian_shape :: "string \<Rightarrow> bool" where
  "egyptian_shape t =
     list_ex (\<lambda>cc. list_ex (\<lambda>prefix. shaped cc prefix t) (mobile_prefixes @ [landline_prefix]))
       ([] # country_codes)"

definition strip_phone :: "string \<Rightarrow> string" where
  "strip_phone s = filter (\<lambda>c. \<not> (isspace c \<or> c = CHR ''-'' \<or> c = CHR ''('' \<or> c = CHR '')'')) s"

text \<open>
  What \<^verbatim>\<open>edit_user_project\<close> makes of a project from the three lines typed for the
  title, the details and the target, and the warning it prints about the target. Two
  projects agree on the fields that are not editable when they have the same dates,
  owner, creation time and current amount. \<open>listed\<close> collects the projects of the
  numbered lines that were printed.
\<close>

definition edited :: "project \<Rightarrow> string \<Rightarrow> string \<Rightarrow> string \<Rightarrow> project" where
  "edited p t d g =
     p\<lparr>title := (if strip t = [] then title p else strip t),
       details := (if strip d = [] then details p else strip d),
       total_target := (case py_float (strip g) of
                          None \<Rightarrow> total_target p
                        | Some v \<Rightarrow> if strip g \<noteq> [] \<and> flt (Fin 0) v then v else total_target p)\<rparr>"

definition target_warning :: "string \<Rightarrow> printed list" where
  "target_warning g =
     (if strip g = [] then []
      else (case py_float (strip g) of
              None \<Rightarrow> [Print ''Invalid target format, keeping current value.'']
            | Some v \<Rightarrow> if flt (Fin 0) v then [] else [Print ''Invalid target, keeping current value.'']))"

definition same_fixed_fields :: "project \<Rightarrow> project \<Rightarrow> bool" where
  "same_fixed_fields p q =
     (start_date p = start_date q \<and> end_date p = end_date q \<and> owner_email p = owner_email q \<and>
      project_created_at p = project_created_at q \<and> current_amount p = current_amount q)"

fun listed :: "printed list \<Rightarrow> project list" where
  "listed [] = []"
| "listed (ListLine i p # out) = p # listed out"
| "listed (_ # out) = listed out"

definition ann_session :: state where
  "ann_session = sample_state\<lparr>current_user_email := Some ''ann@example.com''\<rparr>"

text \<open>
  The progress \<^verbatim>\<open>(current_amount / total_target) * 100\<close> of a project whose target is
  not zero, and the answers of a user who types \<^verbatim>\<open>nan\<close> for the target of a new project.
\<close>

definition progress :: "project \<Rightarrow> pyfloat" where
  "progress p = (case fdiv (current_amount p) (total_target p) of
                   Inr q \<Rightarrow> fmul q (Fin 100)
                 | Inl e \<Rightarrow> NaN)"

definition nan_answers :: "string list" where
  "nan_answers = [''Roof'', ''New tiles'', ''nan'', ''2025-06-01'', ''2025-06-30'']"

definition roof :: project where
  "roof = \<lparr>title = ''Roof'', details = ''New tiles'', total_target = NaN,
           start_date = ''2025-06-01'', end_date = ''2025-06-30'', owner_email = ''ann@example.com'',
           project_created_at = ''2025-01-01T10:00:00'', current_amount = Fin 0\<rparr>"


















section \<open>Properties\<close>

subsection \<open>Evaluating the model on concrete inputs\<close>

lemma times_numeral: "times (numeral k) r = Seq r (times (pred_numeral k) r)"
  by (simp add: numeral_eq_Suc)

lemmas string_eval = code_def isspace_def isspace_number_def strip_number_def isdigit_def isalpha_def isupper_def lower_char_def
  lower_def strip_def LF_def CR_def bar_def char_of_def bit_Suc_0_iff Let_def

lemmas date_eval = strptime_ymd_def month_field_def day_field_def in_range_def digit_of_def
  valid_date_def days_in_month_def is_leap_def midnight_def validate_date_def validate_date_range_def

lemmas regex_eval = full_match_def re_match_def opt_def many1_def one_of_def ascii_letter_def
  in_range_def country_code_def mobile_pattern_def landline_pattern_def validate_egyptian_phone_def
  email_pattern_def validate_email_def validate_name_def times_numeral

lemmas sample_eval = sample_runtime_def sample_state_def ann_def bob_def well_def school_def
  sample_registration_def sample_str_float_def

subsection \<open>Dictionaries and characters\<close>

lemma dict_get_dict_set: "dict_get (dict_set d k v) k' = (if k' = k then Some v else dict_get d k')"
  by (induction d) (auto simp: dict_get_def)

lemma code_char_of: "n < 256 \<Longrightarrow> code (char_of n) = n"
  by (simp add: code_def)

lemma lower_char_not_upper: "isupper c \<Longrightarrow> \<not> isupper (lower_char c)"
  unfolding lower_char_def isupper_def Let_def
  by (auto simp: code_char_of)

lemma lower_char_idem: "lower_char (lower_char c) = lower_char c"
  using lower_char_not_upper[of c] by (auto simp: lower_char_def)

lemma same_letter_lower: "same_letter c d \<Longrightarrow> lower_char c = lower_char d"
  using lower_char_idem by (auto simp: same_letter_def)

lemma email_variant_lower: "email_variant a b \<Longrightarrow> lower (strip a) = lower (strip b)"
  unfolding email_variant_def lower_def
  by (induction rule: list_all2_induct) (auto dest: same_letter_lower)

subsection \<open>Login\<close>

lemma register_user_stores:
  assumes "register_user rt st (f_in # l_in # e_in # p_in # c_in # m_in # a_in # rest) = (Inr True, st1, out1)"
  shows "dict_get (users_data st1) (lower (strip e_in)) =
           Some ((create_user rt (strip f_in) (strip l_in) (lower (strip e_in)) (strip p_in) (strip m_in))
                   \<lparr>is_active := (lower a_in = ''y'')\<rparr>)"
  using assms
  by (auto simp: register_user_def read_def Let_def save_data_def dict_get_dict_set create_user_def
           split: if_splits option.splits)

lemma sample_login_ann:
  "fst (login_user sample_runtime sample_state [''Ann@Example.com '', '' secret1'']) = Inr True"
  by (simp add: login_user_def read_def string_eval sample_eval dict_get_def verify_password_def
        hash_password_def set_current_user_def)

lemma sample_login_bob:
  "dict_get (users_data sample_state) (lower (strip ''bob@example.com'')) = Some bob"
  by (simp add: string_eval sample_eval dict_get_def)

lemma sample_registration_ok:
  "fst (register_user sample_runtime sample_state sample_registration) = Inr True"
  by (simp add: register_user_def read_def regex_eval string_eval sample_eval dict_get_def
        save_data_def create_user_def)

lemma sample_not_activated: "lower ''n'' \<noteq> ''y''"
  by (simp add: string_eval)

text \<open>
  C5. With the email and the password read (two lines of input), \<^verbatim>\<open>login_user\<close> returns
  \<^verbatim>\<open>False\<close> or \<^verbatim>\<open>True\<close> and raises nothing. It returns \<^verbatim>\<open>False\<close> exactly when the
  stripped, lower-cased email is not a key of \<^verbatim>\<open>users_data\<close>, or that user is not active,
  or the stored hash differs from the SHA-256 of the stripped password; then the state,
  with the current-user pointer, is unchanged and the last thing printed is a non-empty
  message. Otherwise the state changes in the pointer only, which is set to that email.
  After a \<^verbatim>\<open>register_user\<close> that returned \<^verbatim>\<open>True\<close>, \<^verbatim>\<open>login_user\<close> with the same email and
  password succeeds exactly when the answer to the activation prompt was \<^verbatim>\<open>y\<close> (in either
  case of the letter), and otherwise reports that the account is not activated.
\<close>

theorem login_user_outcome:
  "(let email' = lower (strip e_in); password = strip p_in;
        (r, st', out) = login_user rt st (e_in # p_in # rest);
        failing = (case dict_get (users_data st) email' of
                     None \<Rightarrow> True
                   | Some u \<Rightarrow> \<not> is_active u \<or> password_hash u \<noteq> sha256_hex rt password)
    in (r = Inr False \<or> r = Inr True) \<and>
       (r = Inr False \<longleftrightarrow> failing) \<and>
       (failing \<longrightarrow> st' = st \<and> (\<exists>msg. msg \<noteq> [] \<and> last out = Print msg)) \<and>
       (\<not> failing \<longrightarrow> st' = st\<lparr>current_user_email := Some email'\<rparr>)) \<and>
   (register_user rt st (f_in # l_in # e_in # p_in # c_in # m_in # a_in # rest') = (Inr True, st1, out1) \<longrightarrow>
      (fst (login_user rt st1 [e_in, p_in]) = Inr True \<longleftrightarrow> lower a_in = ''y'') \<and>
      (lower a_in \<noteq> ''y'' \<longrightarrow> login_user rt st1 [e_in, p_in] =
           (Inr False, st1, [Print (LF # ''=== LOGIN ===''), Print ''Account not activated!''])))"
proof (intro conjI impI)
  show "let email' = lower (strip e_in); password = strip p_in;
        (r, st', out) = login_user rt st (e_in # p_in # rest);
        failing = (case dict_get (users_data st) email' of
                     None \<Rightarrow> True
                   | Some u \<Rightarrow> \<not> is_active u \<or> password_hash u \<noteq> sha256_hex rt password)
    in (r = Inr False \<or> r = Inr True) \<and>
       (r = Inr False \<longleftrightarrow> failing) \<and>
       (failing \<longrightarrow> st' = st \<and> (\<exists>msg. msg \<noteq> [] \<and> last out = Print msg)) \<and>
       (\<not> failing \<longrightarrow> st' = st\<lparr>current_user_email := Some email'\<rparr>)"
    by (simp add: login_user_def read_def Let_def verify_password_def hash_password_def
          set_current_user_def split: option.splits)
next
  assume r: "register_user rt st (f_in # l_in # e_in # p_in # c_in # m_in # a_in # rest') = (Inr True, st1, out1)"
  note s = register_user_stores[OF r]
  show "fst (login_user rt st1 [e_in, p_in]) = Inr True \<longleftrightarrow> lower a_in = ''y''"
    using s by (simp add: login_user_def read_def Let_def verify_password_def hash_password_def create_user_def)
  show "login_user rt st1 [e_in, p_in] =
           (Inr False, st1, [Print (LF # ''=== LOGIN ===''), Print ''Account not activated!''])"
    if "lower a_in \<noteq> ''y''"
    using s that by (simp add: login_user_def read_def Let_def verify_password_def hash_password_def create_user_def)
qed

theorem login_user_outcome_witness:
  "fst (login_user sample_runtime sample_state [''bob@example.com'', ''hunter22'']) = Inr False \<and>
   (\<exists>st1 out1. register_user sample_runtime sample_state sample_registration = (Inr True, st1, out1) \<and>
      login_user sample_runtime st1 ['' Cleo@Example.com'', ''opensesame''] =
        (Inr False, st1, [Print (LF # ''=== LOGIN ===''), Print ''Account not activated!'']))"
proof -
  obtain st1 out1 where
    r: "register_user sample_runtime sample_state
          (''Cleo'' # ''Nasr'' # '' Cleo@Example.com'' # ''opensesame'' # ''opensesame'' #
           ''+20 (010) 1234-5678'' # ''n'' # []) = (Inr True, st1, out1)"
    using sample_registration_ok unfolding sample_registration_def
    by (metis fst_conv surj_pair)
  have a: "login_user sample_runtime st1 ['' Cleo@Example.com'', ''opensesame''] =
        (Inr False, st1, [Print (LF # ''=== LOGIN ===''), Print ''Account not activated!''])"
    using login_user_outcome[where rt = sample_runtime and st = sample_state and ?st1.0 = st1
        and ?out1.0 = out1 and f_in = "''Cleo''" and l_in = "''Nasr''" and e_in = "'' Cleo@Example.com''"
        and p_in = "''opensesame''" and c_in = "''opensesame''" and m_in = "''+20 (010) 1234-5678''"
        and a_in = "''n''" and rest' = "[]"] r sample_not_activated
    by blast
  have b: "fst (login_user sample_runtime sample_state [''bob@example.com'', ''hunter22'']) = Inr False"
    using conjunct1[OF login_user_outcome[where rt = sample_runtime and st = sample_state
        and e_in = "''bob@example.com''" and p_in = "''hunter22''" and rest = "[]"]] sample_login_bob
    by (auto simp: Let_def bob_def split: prod.splits)
  show ?thesis using a b r unfolding sample_registration_def by blast
qed

text \<open>
  C10. Two inputs that are variants of one email (the same letters up to case, whitespace
  around them apart) give the same run of \<^verbatim>\<open>login_user\<close>: the same result, state and
  output, whatever the registry and the rest of the input. The registry need not even
  have lower-case keys for this.
\<close>

theorem login_user_email_variant:
  "email_variant a b \<Longrightarrow> login_user rt st (a # rest) = login_user rt st (b # rest)"
  by (simp add: login_user_def read_def email_variant_lower)

lemma sample_email_variant: "email_variant ''  Ann@EXAMPLE.com '' ''ann@example.com''"
  by (simp add: email_variant_def same_letter_def string_eval)

theorem login_user_email_variant_witness:
  "login_user sample_runtime sample_state [''  Ann@EXAMPLE.com '', ''secret1''] =
   login_user sample_runtime sample_state [''ann@example.com'', ''secret1'']"
  using login_user_email_variant[OF sample_email_variant] by blast

subsection \<open>Dates\<close>

lemma midnight_le: "midnight a \<le> midnight b \<longleftrightarrow> a \<le> b"
  by (auto simp: midnight_def)

lemma sample_dates:
  "strptime_ymd ''2025-06-15'' = Some (2025, 6, 15)"
  "strptime_ymd ''2025-07-01'' = Some (2025, 7, 1)"
  "strptime_ymd ''soon'' = None"
  by (simp_all add: date_eval string_eval)

text \<open>
  C3. When both strings parse, \<^verbatim>\<open>validate_date_range\<close> returns \<^verbatim>\<open>(True, "")\<close> exactly when
  the start date is before the end date and the start (at midnight) is not before the
  moment \<open>now\<close> that \<^verbatim>\<open>datetime.now()\<close> returned, so in particular whenever the start is
  in the future and before the end; it returns \<^verbatim>\<open>False\<close> with a non-empty message when
  the end is not after the start or when the start is before \<open>now\<close>. When one of the
  strings does not parse, the result is \<^verbatim>\<open>(False, "Invalid date format!")\<close>; the function
  has a result in every case.
\<close>

theorem validate_date_range_spec:
  "(strptime_ymd start = Some s \<and> strptime_ymd end' = Some e \<longrightarrow>
      (validate_date_range now start end' = (True, []) \<longleftrightarrow> s < e \<and> now \<le> midnight s) \<and>
      (e \<le> s \<or> midnight s < now \<longrightarrow>
         \<not> fst (validate_date_range now start end') \<and> snd (validate_date_range now start end') \<noteq> [])) \<and>
   (strptime_ymd start = None \<or> strptime_ymd end' = None \<longrightarrow>
      validate_date_range now start end' = (False, ''Invalid date format!''))"
  by (auto simp: validate_date_range_def Let_def midnight_le split: option.splits)

theorem validate_date_range_spec_witness:
  "validate_date_range ((2025, 1, 1), 10, 0, 0, 0) ''2025-06-15'' ''2025-07-01'' = (True, []) \<and>
   \<not> fst (validate_date_range ((2025, 1, 1), 10, 0, 0, 0) ''2025-07-01'' ''2025-06-15'') \<and>
   snd (validate_date_range ((2025, 7, 1), 10, 0, 0, 0) ''2025-06-15'' ''2025-07-01'') \<noteq> [] \<and>
   validate_date_range ((2025, 1, 1), 10, 0, 0, 0) ''2025-06-15'' ''soon'' = (False, ''Invalid date format!'')"
proof -
  have a: "validate_date_range ((2025, 1, 1), 10, 0, 0, 0) ''2025-06-15'' ''2025-07-01'' = (True, [])"
    using validate_date_range_spec[of "''2025-06-15''" "(2025, 6, 15)" "''2025-07-01''" "(2025, 7, 1)"
        "((2025, 1, 1), 10, 0, 0, 0)"] sample_dates
    by (simp add: midnight_def)
  have b: "\<not> fst (validate_date_range ((2025, 1, 1), 10, 0, 0, 0) ''2025-07-01'' ''2025-06-15'')"
    using validate_date_range_spec[of "''2025-07-01''" "(2025, 7, 1)" "''2025-06-15''" "(2025, 6, 15)"
        "((2025, 1, 1), 10, 0, 0, 0)"] sample_dates
    by simp
  have c: "snd (validate_date_range ((2025, 7, 1), 10, 0, 0, 0) ''2025-06-15'' ''2025-07-01'') \<noteq> []"
    using validate_date_range_spec[of "''2025-06-15''" "(2025, 6, 15)" "''2025-07-01''" "(2025, 7, 1)"
        "((2025, 7, 1), 10, 0, 0, 0)"] sample_dates
    by (simp add: midnight_def)
  have d: "validate_date_range ((2025, 1, 1), 10, 0, 0, 0) ''2025-06-15'' ''soon'' = (False, ''Invalid date format!'')"
    using validate_date_range_spec[of "''2025-06-15''" _ "''soon''" _ "((2025, 1, 1), 10, 0, 0, 0)"] sample_dates
    by simp
  show ?thesis using a b c d by blast
qed

subsection \<open>Printing projects\<close>

lemma fdiv_error: "fdiv a b = Inl e \<longleftrightarrow> b = Fin 0 \<and> e = ZeroDivisionError"
  by (cases "(a, b)" rule: fdiv.cases) (auto split: pyfloat.splits)

lemma shown_append: "shown (xs @ ys) = shown xs @ shown ys"
  by (induction xs rule: shown.induct) auto

lemma matching_loop_filter:
  "\<forall>p\<in>set ps. strptime_ymd (start_date p) \<noteq> None \<and> strptime_ymd (end_date p) \<noteq> None \<Longrightarrow>
   matching_loop d ps acc = Inr (acc @ filter (running_on d) ps)"
  by (induction ps arbitrary: acc) (auto simp: running_on_def)

lemma show_projects_cases:
  "show_projects ProjectEntry i ps out = (r, out') \<Longrightarrow>
   (r = Inr () \<and> shown out' = shown out @ ps \<and> (\<forall>p\<in>set ps. total_target p \<noteq> Fin 0)) \<or>
   (r = Inl ZeroDivisionError \<and> (\<exists>p\<in>set ps. total_target p = Fin 0))"
proof (induction ps arbitrary: i out)
  case Nil
  then show ?case by simp
next
  case (Cons p ps)
  show ?case
  proof (cases "fdiv (current_amount p) (total_target p)")
    case (Inl e)
    with Cons.prems show ?thesis by (simp add: fdiv_error)
  next
    case (Inr q)
    then have nz: "total_target p \<noteq> Fin 0"
      using fdiv_error[of "current_amount p" "total_target p"] by auto
    from Cons.prems Inr
    have "show_projects ProjectEntry (Suc i) ps (out @ [ProjectEntry i p (fmul q (Fin 100))]) = (r, out')"
      by simp
    from Cons.IH[OF this] nz show ?thesis by (auto simp: shown_append)
  qed
qed

subsection \<open>Loading the files\<close>

lemma bitlen_numeral: "bitlen (numeral k) = bitlen (numeral k div 2) + 1"
  by (subst compute_bitlen) simp

lemma bitlen_one: "bitlen 1 = 1"
  by (subst compute_bitlen) simp

lemmas float_eval = py_float_def parse_unsigned_def parse_exponent_def digits_val_def pow10_def
  binary64_def floor_log2_def round_half_even_def pow2_def bitlen_numeral bitlen_one

lemma sample_floats:
  "py_float ''500.0'' = Some (Fin 500)"
  "py_float ''0.0'' = Some (Fin 0)"
  "py_float ''1000.0'' = Some (Fin 1000)"
  "py_float ''a lot'' = None"
  by (simp_all add: float_eval string_eval)

lemma load_users_fields:
  "load_users ls =
     foldl (\<lambda>d l. dict_set d (line_fields l ! 0) (user_of_fields (line_fields l))) []
       (filter (\<lambda>l. length (line_fields l) = 7) ls)"
proof -
  have "foldl (\<lambda>loaded line0.
              let line = strip line0
              in if line \<noteq> []
                 then (let parts = split_on bar line
                       in if length parts = 7
                          then dict_set loaded (parts ! 0)
                                 \<lparr>first_name = parts ! 1, last_name = parts ! 2, email = parts ! 0,
                                  password_hash = parts ! 3, mobile = parts ! 4,
                                  is_active = (lower (parts ! 5) = ''true''), created_at = parts ! 6\<rparr>
                          else loaded)
                 else loaded) acc ls =
     foldl (\<lambda>d l. dict_set d (line_fields l ! 0) (user_of_fields (line_fields l))) acc
       (filter (\<lambda>l. length (line_fields l) = 7) ls)" for acc
    by (induction ls arbitrary: acc) (auto simp: line_fields_def user_of_fields_def Let_def)
  then show ?thesis by (simp add: load_users_def)
qed

lemma load_projects_fields:
  "load_projects ls acc =
     (if \<forall>l\<in>set (filter (\<lambda>l. length (line_fields l) = 8) ls). numeric_fields (line_fields l)
      then Inr (acc @ map (\<lambda>l. project_of_fields (line_fields l)) (filter (\<lambda>l. length (line_fields l) = 8) ls))
      else Inl ValueError)"
  by (induction ls arbitrary: acc)
     (auto simp: line_fields_def project_of_fields_def numeric_fields_def Let_def split: option.splits)

text \<open>
  C6. \<^verbatim>\<open>load_data\<close> splits every stripped line on the bar. The users registry becomes
  the dictionary built, in order, from the lines with exactly 7 fields; the other lines
  are skipped without a trace. The projects registry becomes the list built from the
  lines with exactly 8 fields, the others skipped, unless the third or the eighth field
  of one of these lines is not a number for \<^verbatim>\<open>float\<close>: then the registry is empty, as it
  is when opening or reading the file raises. No exception leaves \<^verbatim>\<open>load_data\<close>, and a
  file that is absent leaves its registry as it was.
\<close>

theorem load_data_spec:
  "(case users_file st of
      Absent \<Rightarrow> users_data (load_data st) = users_data st
    | Unreadable \<Rightarrow> users_data (load_data st) = []
    | Content text \<Rightarrow>
        users_data (load_data st) =
          foldl (\<lambda>d l. dict_set d (line_fields l ! 0) (user_of_fields (line_fields l))) []
            (filter (\<lambda>l. length (line_fields l) = 7) (file_lines text))) \<and>
   (case projects_file st of
      Absent \<Rightarrow> projects_data (load_data st) = projects_data st
    | Unreadable \<Rightarrow> projects_data (load_data st) = []
    | Content text \<Rightarrow>
        projects_data (load_data st) =
          (if \<forall>l\<in>set (filter (\<lambda>l. length (line_fields l) = 8) (file_lines text)). numeric_fields (line_fields l)
           then map (\<lambda>l. project_of_fields (line_fields l)) (filter (\<lambda>l. length (line_fields l) = 8) (file_lines text))
           else []))"
  by (auto simp: load_data_def load_users_fields load_projects_fields split: text_file.splits)

lemma sample_files:
  "filter (\<lambda>l. length (line_fields l) = 7) (file_lines sample_users_text) =
     [''ann@example.com|Ann|Lee|sha256:secret1|01012345678|True|2024-12-01T09:00:00'',
      ''bob@example.com|Bob|Ray|sha256:hunter22|0212345678|False|2024-12-02T09:00:00'']"
  "filter (\<lambda>l. length (line_fields l) = 8) (file_lines sample_projects_text) =
     [''Well|A village well|500.0|2025-06-01|2025-06-30|ann@example.com|2024-12-03T09:00:00|0.0'']"
  "filter (\<lambda>l. length (line_fields l) = 8) (file_lines sample_broken_projects_text) =
     [''Well|A village well|500.0|2025-06-01|2025-06-30|ann@example.com|2024-12-03T09:00:00|0.0'',
      ''School|Books|a lot|2025-06-15|2025-07-15|bob@example.com|2024-12-04T09:00:00|0.0'']"
  by (simp_all add: line_fields_def file_lines_def sample_users_text_def sample_projects_text_def
        sample_broken_projects_text_def string_eval)

lemma sample_fields:
  "line_fields ''ann@example.com|Ann|Lee|sha256:secret1|01012345678|True|2024-12-01T09:00:00'' =
     [''ann@example.com'', ''Ann'', ''Lee'', ''sha256:secret1'', ''01012345678'', ''True'', ''2024-12-01T09:00:00'']"
  "line_fields ''bob@example.com|Bob|Ray|sha256:hunter22|0212345678|False|2024-12-02T09:00:00'' =
     [''bob@example.com'', ''Bob'', ''Ray'', ''sha256:hunter22'', ''0212345678'', ''False'', ''2024-12-02T09:00:00'']"
  "line_fields ''Well|A village well|500.0|2025-06-01|2025-06-30|ann@example.com|2024-12-03T09:00:00|0.0'' =
     [''Well'', ''A village well'', ''500.0'', ''2025-06-01'', ''2025-06-30'', ''ann@example.com'',
      ''2024-12-03T09:00:00'', ''0.0'']"
  "line_fields ''School|Books|a lot|2025-06-15|2025-07-15|bob@example.com|2024-12-04T09:00:00|0.0'' =
     [''School'', ''Books'', ''a lot'', ''2025-06-15'', ''2025-07-15'', ''bob@example.com'',
      ''2024-12-04T09:00:00'', ''0.0'']"
  by (simp_all add: line_fields_def string_eval)

theorem load_data_spec_witness:
  "users_data (load_data (sample_state\<lparr>users_file := Content sample_users_text,
                                       projects_file := Content sample_projects_text\<rparr>)) =
     [(''ann@example.com'', ann), (''bob@example.com'', bob)] \<and>
   projects_data (load_data (sample_state\<lparr>users_file := Content sample_users_text,
                                          projects_file := Content sample_projects_text\<rparr>)) = [well] \<and>
   projects_data (load_data (sample_state\<lparr>projects_file := Content sample_broken_projects_text\<rparr>)) = [] \<and>
   users_data (load_data (sample_state\<lparr>users_file := Unreadable\<rparr>)) = []"
proof -
  have a: "users_data (load_data (sample_state\<lparr>users_file := Content sample_users_text,
                                       projects_file := Content sample_projects_text\<rparr>)) =
     [(''ann@example.com'', ann), (''bob@example.com'', bob)]"
    using conjunct1[OF load_data_spec[of "sample_state\<lparr>users_file := Content sample_users_text,
                                       projects_file := Content sample_projects_text\<rparr>"]]
    by (simp add: sample_files sample_fields user_of_fields_def ann_def bob_def string_eval)
  have b: "projects_data (load_data (sample_state\<lparr>users_file := Content sample_users_text,
                                          projects_file := Content sample_projects_text\<rparr>)) = [well]"
    using conjunct2[OF load_data_spec[of "sample_state\<lparr>users_file := Content sample_users_text,
                                       projects_file := Content sample_projects_text\<rparr>"]]
    by (simp add: sample_files sample_fields project_of_fields_def numeric_fields_def sample_floats well_def)
  have c: "projects_data (load_data (sample_state\<lparr>projects_file := Content sample_broken_projects_text\<rparr>)) = []"
    using conjunct2[OF load_data_spec[of "sample_state\<lparr>projects_file := Content sample_broken_projects_text\<rparr>"]]
    by (simp add: sample_files sample_fields numeric_fields_def sample_floats)
  have d: "users_data (load_data (sample_state\<lparr>users_file := Unreadable\<rparr>)) = []"
    using conjunct1[OF load_data_spec[of "sample_state\<lparr>users_file := Unreadable\<rparr>"]]
    by simp
  show ?thesis using a b c d by blast
qed

subsection \<open>Searching by date\<close>

lemma search_projects_by_date_run:
  assumes parse: "\<forall>p\<in>set (projects_data st). strptime_ymd (start_date p) \<noteq> None \<and> strptime_ymd (end_date p) \<noteq> None"
    and d: "strptime_ymd (strip l) = Some d"
    and run: "search_projects_by_date st (l # rest) = (r, st', out)"
  shows "st' = st \<and>
         matching_loop d (projects_data st) [] = Inr (filter (running_on d) (projects_data st)) \<and>
         ((r = Inr () \<and> shown out = filter (running_on d) (projects_data st) \<and>
           (\<forall>p\<in>set (filter (running_on d) (projects_data st)). total_target p \<noteq> Fin 0)) \<or>
          (r = Inl ZeroDivisionError \<and>
           (\<exists>p\<in>set (filter (running_on d) (projects_data st)). total_target p = Fin 0)))"
proof -
  have m: "matching_loop d (projects_data st) [] = Inr (filter (running_on d) (projects_data st))"
    using matching_loop_filter[OF parse, of d "[]"] by simp
  have v: "validate_date (strip l)"
    using d by (simp add: validate_date_def)
  show ?thesis
  proof (cases "filter (running_on d) (projects_data st) = []")
    case True
    with run d m v have "r = Inr ()" "st' = st" "shown out = []"
      by (auto simp: search_projects_by_date_def read_def Let_def)
    with True m show ?thesis by simp
  next
    case False
    obtain r1 out1 where s: "show_projects ProjectEntry 1 (filter (running_on d) (projects_data st))
        [Print (LF # ''=== SEARCH PROJECTS BY DATE ===''), Print (LF # ''Projects running on '' @ strip l @ '':'')] = (r1, out1)"
      by (cases "show_projects ProjectEntry 1 (filter (running_on d) (projects_data st))
        [Print (LF # ''=== SEARCH PROJECTS BY DATE ===''), Print (LF # ''Projects running on '' @ strip l @ '':'')]") auto
    from run d m v False s have e: "r = r1" "st' = st" "out = out1"
      by (auto simp: search_projects_by_date_def read_def Let_def)
    from show_projects_cases[OF s] e m show ?thesis
      by (simp add: shown_append)
  qed
qed

text \<open>
  The search raises exactly when a project that runs on the date has a zero target: the
  progress of every collected project is computed, and the division raises on such a
  target before the block of the project is printed.
\<close>

lemma search_projects_by_date_raises:
  assumes "\<forall>p\<in>set (projects_data st). strptime_ymd (start_date p) \<noteq> None \<and> strptime_ymd (end_date p) \<noteq> None"
    and "strptime_ymd (strip l) = Some d"
    and "search_projects_by_date st (l # rest) = (r, st', out)"
  shows "r = Inl ZeroDivisionError \<longleftrightarrow> (\<exists>p\<in>set (projects_data st). running_on d p \<and> total_target p = Fin 0)"
proof -
  from search_projects_by_date_run[OF assms]
  have "(r = Inr () \<and> (\<forall>p\<in>set (filter (running_on d) (projects_data st)). total_target p \<noteq> Fin 0)) \<or>
        (r = Inl ZeroDivisionError \<and> (\<exists>p\<in>set (filter (running_on d) (projects_data st)). total_target p = Fin 0))"
    by blast
  then show ?thesis by auto
qed

lemma pantry_lines:
  "filter (\<lambda>l. length (line_fields l) = 8) (file_lines pantry_text) =
     [''School|Books|1000.0|2025-06-15|2025-07-15|bob@example.com|2024-12-04T09:00:00|0.0'',
      ''Pantry|Food|0|2025-06-01|2025-06-30|ann@example.com|2024-12-05T09:00:00|0.0'']"
  "line_fields ''School|Books|1000.0|2025-06-15|2025-07-15|bob@example.com|2024-12-04T09:00:00|0.0'' =
     [''School'', ''Books'', ''1000.0'', ''2025-06-15'', ''2025-07-15'', ''bob@example.com'',
      ''2024-12-04T09:00:00'', ''0.0'']"
  "line_fields ''Pantry|Food|0|2025-06-01|2025-06-30|ann@example.com|2024-12-05T09:00:00|0.0'' =
     [''Pantry'', ''Food'', ''0'', ''2025-06-01'', ''2025-06-30'', ''ann@example.com'',
      ''2024-12-05T09:00:00'', ''0.0'']"
  "py_float ''0'' = Some (Fin 0)"
  by (simp_all add: line_fields_def file_lines_def pantry_text_def float_eval string_eval)

lemma pantry_loaded: "projects_data (load_data (fresh_process pantry_state)) = [school, pantry]"
  by (simp add: load_data_def fresh_process_def pantry_state_def sample_state_def load_projects_fields
        pantry_lines numeric_fields_def project_of_fields_def sample_floats school_def pantry_def)

lemma pantry_dates:
  "strptime_ymd (start_date school) = Some (2025, 6, 15)" "strptime_ymd (end_date school) = Some (2025, 7, 15)"
  "strptime_ymd (start_date pantry) = Some (2025, 6, 1)" "strptime_ymd (end_date pantry) = Some (2025, 6, 30)"
  "strptime_ymd (strip ''2025-06-20'') = Some (2025, 6, 20)"
  by (simp_all add: school_def pantry_def date_eval string_eval)

lemma pantry_search:
  "search_projects_by_date pantry_state [''2025-06-20''] =
     (Inl ZeroDivisionError, pantry_state,
      [Print (LF # ''=== SEARCH PROJECTS BY DATE ===''), Print (LF # ''Projects running on 2025-06-20:''),
       ProjectEntry 1 school (Fin 0)])"
proof -
  have s: "strip ''2025-06-20'' = ''2025-06-20''"
    by (simp add: string_eval)
  have v: "validate_date ''2025-06-20''"
    using pantry_dates(5) by (simp add: validate_date_def s)
  have m: "matching_loop (2025, 6, 20) [school, pantry] [] = Inr [school, pantry]"
    by (simp add: pantry_dates less_eq_prod_def)
  have p: "show_projects ProjectEntry (Suc 0) [school, pantry]
             [Print (LF # ''=== SEARCH PROJECTS BY DATE ===''), Print (LF # ''Projects running on 2025-06-20:'')] =
           (Inl ZeroDivisionError,
            [Print (LF # ''=== SEARCH PROJECTS BY DATE ===''), Print (LF # ''Projects running on 2025-06-20:''),
             ProjectEntry 1 school (Fin 0)])"
    by (simp add: school_def pantry_def binary64_def)
  have ps: "projects_data pantry_state = [school, pantry]"
    by (simp add: pantry_state_def)
  show ?thesis
    using pantry_dates(5) unfolding s
    by (simp add: search_projects_by_date_def read_def s v m p ps del: matching_loop.simps show_projects.simps)
qed

text \<open>
  C4, as the claim states it, fails. The registry of \<open>pantry_state\<close> is the one that
  \<^verbatim>\<open>load_data\<close> reads from the file of that state; the dates of its two projects parse
  and both projects run on 2025-06-20. The search for this date prints the block of the
  first project and then raises \<^verbatim>\<open>ZeroDivisionError\<close>, the target of the second being
  zero: it does not return the two projects.
\<close>

theorem search_projects_by_date_counterexample:
  "projects_data (load_data (fresh_process pantry_state)) = [school, pantry] \<and>
   projects_data pantry_state = [school, pantry] \<and>
   map (\<lambda>p. (strptime_ymd (start_date p), strptime_ymd (end_date p))) [school, pantry] =
     [(Some (2025, 6, 15), Some (2025, 7, 15)), (Some (2025, 6, 1), Some (2025, 6, 30))] \<and>
   strptime_ymd (strip ''2025-06-20'') = Some (2025, 6, 20) \<and>
   filter (running_on (2025, 6, 20)) [school, pantry] = [school, pantry] \<and>
   search_projects_by_date pantry_state [''2025-06-20''] =
     (Inl ZeroDivisionError, pantry_state,
      [Print (LF # ''=== SEARCH PROJECTS BY DATE ===''), Print (LF # ''Projects running on 2025-06-20:''),
       ProjectEntry 1 school (Fin 0)]) \<and>
   shown [Print (LF # ''=== SEARCH PROJECTS BY DATE ===''), Print (LF # ''Projects running on 2025-06-20:''),
          ProjectEntry 1 school (Fin 0)] = [school]"
  using pantry_loaded pantry_dates pantry_search
  by (simp add: pantry_state_def running_on_def less_eq_prod_def)

text \<open>
  C4, amended. Let the start and end dates of every project of the registry parse, let
  the line typed at the prompt, stripped, parse to the date \<open>d\<close>, and let no project that
  runs on \<open>d\<close> have a zero target. Then \<^verbatim>\<open>search_projects_by_date\<close> returns, the state
  unchanged, and the blocks it printed are those of exactly the projects that run on
  \<open>d\<close>, owner regardless and both boundary dates included, in the order of the registry.
\<close>

theorem search_projects_by_date_spec:
  assumes "\<forall>p\<in>set (projects_data st). strptime_ymd (start_date p) \<noteq> None \<and> strptime_ymd (end_date p) \<noteq> None"
    and "strptime_ymd (strip l) = Some d"
    and "\<forall>p\<in>set (projects_data st). running_on d p \<longrightarrow> total_target p \<noteq> Fin 0"
  shows "\<exists>out. search_projects_by_date st (l # rest) = (Inr (), st, out) \<and>
               shown out = filter (running_on d) (projects_data st)"
proof -
  obtain r st' out where run: "search_projects_by_date st (l # rest) = (r, st', out)"
    by (metis surj_pair)
  from search_projects_by_date_run[OF assms(1) assms(2) run] assms(3)
  have "r = Inr ()" "st' = st" "shown out = filter (running_on d) (projects_data st)"
    by auto
  with run show ?thesis by simp
qed

lemma sample_search:
  "\<forall>p\<in>set (projects_data sample_state). strptime_ymd (start_date p) \<noteq> None \<and> strptime_ymd (end_date p) \<noteq> None"
  "strptime_ymd (strip '' 2025-06-01'') = Some (2025, 6, 1)"
  "strptime_ymd (strip ''2025-07-15'') = Some (2025, 7, 15)"
  "\<forall>p\<in>set (projects_data sample_state). running_on d p \<longrightarrow> total_target p \<noteq> Fin 0"
  "filter (running_on (2025, 6, 1)) (projects_data sample_state) = [well]"
  "filter (running_on (2025, 7, 15)) (projects_data sample_state) = [school]"
  by (simp_all add: running_on_def date_eval string_eval sample_eval)

theorem search_projects_by_date_spec_witness:
  "(\<exists>out. search_projects_by_date sample_state ['' 2025-06-01''] = (Inr (), sample_state, out) \<and>
          shown out = [well]) \<and>
   (\<exists>out. search_projects_by_date sample_state [''2025-07-15''] = (Inr (), sample_state, out) \<and>
          shown out = [school])"
proof -
  from search_projects_by_date_spec[OF sample_search(1) sample_search(2) sample_search(4), of "[]"]
  have a: "\<exists>out. search_projects_by_date sample_state ['' 2025-06-01''] = (Inr (), sample_state, out) \<and>
                shown out = [well]"
    unfolding sample_search(5) .
  from search_projects_by_date_spec[OF sample_search(1) sample_search(3) sample_search(4), of "[]"]
  have b: "\<exists>out. search_projects_by_date sample_state [''2025-07-15''] = (Inr (), sample_state, out) \<and>
                shown out = [school]"
    unfolding sample_search(6) .
  from a b show ?thesis by (rule conjI)
qed

subsection \<open>Regular expressions and phone numbers\<close>

lemma nullable_lang: "nullable r \<longleftrightarrow> [] \<in> lang r"
  by (induction r) (auto intro: star.intros)

lemma star_cons:
  "c # w \<in> star A \<longleftrightarrow> (\<exists>u v. w = u @ v \<and> c # u \<in> A \<and> v \<in> star A)"
proof
  assume "c # w \<in> star A"
  then show "\<exists>u v. w = u @ v \<and> c # u \<in> A \<and> v \<in> star A"
  proof (induction "c # w" arbitrary: w rule: star.induct)
    case (star_step u v)
    then show ?case by (cases u) auto
  qed
next
  assume "\<exists>u v. w = u @ v \<and> c # u \<in> A \<and> v \<in> star A"
  then obtain u v where "w = u @ v" "c # u \<in> A" "v \<in> star A" by blast
  then show "c # w \<in> star A"
    using star.star_step[of "c # u" A v] by simp
qed

lemma lang_deriv: "w \<in> lang (deriv c r) \<longleftrightarrow> c # w \<in> lang r"
proof (induction r arbitrary: w)
  case (Seq r s)
  show ?case
  proof (cases "nullable r")
    case True
    then have "w \<in> lang (deriv c (Seq r s)) \<longleftrightarrow>
               (\<exists>u v. w = u @ v \<and> c # u \<in> lang r \<and> v \<in> lang s) \<or> c # w \<in> lang s"
      using Seq by auto
    also have "\<dots> \<longleftrightarrow> c # w \<in> lang (Seq r s)"
      using True by (auto simp: nullable_lang Cons_eq_append_conv) 
    finally show ?thesis .
  next
    case False
    then have "w \<in> lang (deriv c (Seq r s)) \<longleftrightarrow>
               (\<exists>u v. w = u @ v \<and> c # u \<in> lang r \<and> v \<in> lang s)"
      using Seq by auto
    also have "\<dots> \<longleftrightarrow> c # w \<in> lang (Seq r s)"
      using False by (auto simp: nullable_lang Cons_eq_append_conv)
    finally show ?thesis .
  qed
next
  case (Star r)
  then show ?case by (auto simp: star_cons)
qed auto

lemma full_match_lang: "full_match r s \<longleftrightarrow> s \<in> lang r"
proof -
  have "nullable (foldl (\<lambda>q c. deriv c q) r s) \<longleftrightarrow> s \<in> lang r" for r
    by (induction s arbitrary: r) (auto simp: nullable_lang lang_deriv)
  then show ?thesis by (simp add: full_match_def)
qed

lemma lang_lit: "lang (lit s) = {s}"
  by (induction s) auto

lemma lang_Seq_Sym: "w \<in> lang (Seq (Sym P) r) \<longleftrightarrow> (\<exists>c v. w = c # v \<and> P c \<and> v \<in> lang r)"
proof
  assume "w \<in> lang (Seq (Sym P) r)"
  then obtain c v where "w = [c] @ v" "P c" "v \<in> lang r" by auto
  then show "\<exists>c v. w = c # v \<and> P c \<and> v \<in> lang r" by simp
next
  assume "\<exists>c v. w = c # v \<and> P c \<and> v \<in> lang r"
  then obtain c v where "w = [c] @ v" "P c" "v \<in> lang r" by auto
  then have "\<exists>u v. w = u @ v \<and> u \<in> lang (Sym P) \<and> v \<in> lang r" by (intro exI[of _ "[c]"] exI[of _ v]) simp
  then show "w \<in> lang (Seq (Sym P) r)" by simp
qed

lemma lang_times_sym: "w \<in> lang (times n (Sym P)) \<longleftrightarrow> length w = n \<and> list_all P w"
proof (induction n arbitrary: w)
  case 0
  show ?case by (cases w) simp_all
next
  case (Suc n)
  have "w \<in> lang (times (Suc n) (Sym P)) \<longleftrightarrow> (\<exists>c v. w = c # v \<and> P c \<and> length v = n \<and> list_all P v)"
    unfolding times.simps lang_Seq_Sym Suc ..
  also have "\<dots> \<longleftrightarrow> length w = Suc n \<and> list_all P w"
    by (cases w) auto
  finally show ?case .
qed

lemma lang_country_code: "lang country_code = set ([] # country_codes)"
  by (auto simp: country_code_def country_codes_def opt_def lang_lit)

lemma shaped_iff:
  "shaped cc p t \<longleftrightarrow> (\<exists>ds. t = cc @ p @ ds \<and> length ds = 8 \<and> list_all isdigit ds)"
proof
  assume s: "shaped cc p t"
  then have "t = cc @ p @ drop (length (cc @ p)) t"
    by (metis append.assoc append_take_drop_id shaped_def)
  with s show "\<exists>ds. t = cc @ p @ ds \<and> length ds = 8 \<and> list_all isdigit ds"
    unfolding shaped_def by (intro exI[of _ "drop (length (cc @ p)) t"]) auto
next
  assume "\<exists>ds. t = cc @ p @ ds \<and> length ds = 8 \<and> list_all isdigit ds"
  then show "shaped cc p t" by (auto simp: shaped_def)
qed

lemma mobile_tail:
  "(\<exists>c ds. v = ''01'' @ c # ds \<and> one_of ''0125'' c \<and> length ds = 8 \<and> list_all isdigit ds) \<longleftrightarrow>
   (\<exists>p\<in>set mobile_prefixes. \<exists>ds. v = p @ ds \<and> length ds = 8 \<and> list_all isdigit ds)"
  by (auto simp: mobile_prefixes_def one_of_def)

lemma lang_Seq_lit: "w \<in> lang (Seq (lit s) r) \<longleftrightarrow> (\<exists>v. w = s @ v \<and> v \<in> lang r)"
  by (auto simp: lang_lit)

lemma lang_mobile_tail:
  "v \<in> lang (Seq (lit ''01'') (Seq (Sym (one_of ''0125'')) (times 8 (Sym isdigit)))) \<longleftrightarrow>
   (\<exists>p\<in>set mobile_prefixes. \<exists>ds. v = p @ ds \<and> length ds = 8 \<and> list_all isdigit ds)"
proof -
  have "v \<in> lang (Seq (lit ''01'') (Seq (Sym (one_of ''0125'')) (times 8 (Sym isdigit)))) \<longleftrightarrow>
        (\<exists>c ds. v = ''01'' @ c # ds \<and> one_of ''0125'' c \<and> length ds = 8 \<and> list_all isdigit ds)"
    unfolding lang_Seq_lit lang_Seq_Sym lang_times_sym by auto
  then show ?thesis using mobile_tail by simp
qed

lemma lang_landline_tail:
  "v \<in> lang (Seq (lit ''02'') (times 8 (Sym isdigit))) \<longleftrightarrow>
   (\<exists>ds. v = landline_prefix @ ds \<and> length ds = 8 \<and> list_all isdigit ds)"
  unfolding lang_Seq_lit lang_times_sym landline_prefix_def by auto

lemma lang_mobile:
  "t \<in> lang mobile_pattern \<longleftrightarrow> (\<exists>cc\<in>set ([] # country_codes). \<exists>p\<in>set mobile_prefixes. shaped cc p t)"
proof -
  have "t \<in> lang mobile_pattern \<longleftrightarrow>
        (\<exists>cc v. t = cc @ v \<and> cc \<in> set ([] # country_codes) \<and>
           v \<in> lang (Seq (lit ''01'') (Seq (Sym (one_of ''0125'')) (times 8 (Sym isdigit)))))"
    unfolding mobile_pattern_def lang.simps(5)[of country_code] lang_country_code by blast
  also have "\<dots> \<longleftrightarrow> (\<exists>cc\<in>set ([] # country_codes). \<exists>p\<in>set mobile_prefixes. shaped cc p t)"
    unfolding lang_mobile_tail shaped_iff by blast
  finally show ?thesis .
qed

lemma lang_landline:
  "t \<in> lang landline_pattern \<longleftrightarrow> (\<exists>cc\<in>set ([] # country_codes). shaped cc landline_prefix t)"
proof -
  have "t \<in> lang landline_pattern \<longleftrightarrow>
        (\<exists>cc v. t = cc @ v \<and> cc \<in> set ([] # country_codes) \<and>
           v \<in> lang (Seq (lit ''02'') (times 8 (Sym isdigit))))"
    unfolding landline_pattern_def lang.simps(5)[of country_code] lang_country_code by blast
  also have "\<dots> \<longleftrightarrow> (\<exists>cc\<in>set ([] # country_codes). shaped cc landline_prefix t)"
    unfolding lang_landline_tail shaped_iff by blast
  finally show ?thesis .
qed

lemma strip_phone_no_newline: "strip_phone s = [] \<or> last (strip_phone s) \<noteq> LF"
proof (cases "strip_phone s = []")
  case False
  then have "last (strip_phone s) \<in> set (strip_phone s)" by simp
  then have "\<not> isspace (last (strip_phone s))" by (auto simp: strip_phone_def)
  then show ?thesis by (auto simp: string_eval)
qed simp

lemma re_match_strip_phone: "re_match r (strip_phone s) \<longleftrightarrow> strip_phone s \<in> lang r"
  using strip_phone_no_newline[of s] by (auto simp: re_match_def full_match_lang)

lemma validate_egyptian_phone_unfold:
  "validate_egyptian_phone s \<longleftrightarrow>
   re_match mobile_pattern (strip_phone s) \<or> re_match landline_pattern (strip_phone s)"
  by (simp add: validate_egyptian_phone_def strip_phone_def Let_def)

lemma egyptian_shape_unfold:
  "egyptian_shape t \<longleftrightarrow>
   (\<exists>cc\<in>set ([] # country_codes). \<exists>p\<in>set mobile_prefixes. shaped cc p t) \<or>
   (\<exists>cc\<in>set ([] # country_codes). shaped cc landline_prefix t)"
  unfolding egyptian_shape_def list_ex_iff by (simp add: Bex_def) blast

lemma validate_egyptian_phone_shape: "validate_egyptian_phone s \<longleftrightarrow> egyptian_shape (strip_phone s)"
  unfolding validate_egyptian_phone_unfold re_match_strip_phone lang_mobile lang_landline
    egyptian_shape_unfold ..

lemma sample_phones:
  "validate_egyptian_phone ''01012345678''"
  "validate_egyptian_phone ''0212345678''"
  "\<not> validate_egyptian_phone ''123''"
  "\<not> validate_egyptian_phone ''+1 555 0100''"
  by (simp_all add: regex_eval string_eval)

lemma sample_phone_stripped: "strip_phone ''+20 (010) 1234-5678'' = ''+2001012345678''"
  by (simp add: strip_phone_def string_eval)

text \<open>
  C8. \<^verbatim>\<open>validate_egyptian_phone\<close> accepts \<^verbatim>\<open>01012345678\<close> and \<^verbatim>\<open>0212345678\<close> and rejects
  \<^verbatim>\<open>123\<close> and \<^verbatim>\<open>+1 555 0100\<close>. For every string, it accepts the string exactly when what is
  left of it without whitespace (the class \<^verbatim>\<open>\s\<close>), hyphens and parentheses is an optional
  country code \<^verbatim>\<open>+20\<close>, \<^verbatim>\<open>0020\<close> or \<^verbatim>\<open>20\<close>, then one of the prefixes 010, 011, 012, 015
  and 02, then exactly 8 digits.
\<close>

theorem validate_egyptian_phone_spec:
  "validate_egyptian_phone ''01012345678'' \<and> validate_egyptian_phone ''0212345678'' \<and>
   \<not> validate_egyptian_phone ''123'' \<and> \<not> validate_egyptian_phone ''+1 555 0100'' \<and>
   (validate_egyptian_phone s \<longleftrightarrow> egyptian_shape (strip_phone s))"
  using sample_phones validate_egyptian_phone_shape by blast

theorem validate_egyptian_phone_spec_witness:
  "validate_egyptian_phone ''+20 (010) 1234-5678'' \<and> egyptian_shape ''+2001012345678'' \<and>
   \<not> egyptian_shape (strip_phone ''+1 555 0100'')"
proof -
  have a: "egyptian_shape ''+2001012345678''"
    by (simp add: egyptian_shape_def shaped_def country_codes_def mobile_prefixes_def
          landline_prefix_def string_eval)
  have "validate_egyptian_phone ''+20 (010) 1234-5678''"
    using validate_egyptian_phone_spec[of "''+20 (010) 1234-5678''"] a sample_phone_stripped by simp
  moreover have "\<not> egyptian_shape (strip_phone ''+1 555 0100'')"
    using validate_egyptian_phone_spec[of "''+1 555 0100''"] by blast
  ultimately show ?thesis using a by blast
qed

subsection \<open>Editing and deleting one's own projects\<close>

lemma filter_as_positions: "filter P xs = map ((!) xs) (filter (\<lambda>i. P (xs ! i)) [0..<length xs])"
proof -
  have "filter P (map ((!) xs) [0..<length xs]) = map ((!) xs) (filter (P \<circ> (!) xs) [0..<length xs])"
    by (rule filter_map)
  then show ?thesis by (simp add: map_nth comp_def)
qed

lemma get_user_projects_positions:
  "get_user_projects st e = map ((!) (projects_data st)) (owned_positions st e)"
  unfolding get_user_projects_def owned_positions_def by (rule filter_as_positions)

lemma owned_positions_nth:
  assumes "k < length (get_user_projects st e)"
  shows "owned_positions st e ! k < length (projects_data st)"
    and "projects_data st ! (owned_positions st e ! k) = get_user_projects st e ! k"
    and "owner_email (projects_data st ! (owned_positions st e ! k)) = e"
proof -
  from assms have k: "k < length (owned_positions st e)"
    by (simp add: get_user_projects_positions)
  then have "owned_positions st e ! k \<in> set (owned_positions st e)" by simp
  then show "owned_positions st e ! k < length (projects_data st)"
    and "owner_email (projects_data st ! (owned_positions st e ! k)) = e"
    by (auto simp: owned_positions_def)
  show "projects_data st ! (owned_positions st e ! k) = get_user_projects st e ! k"
    using k by (simp add: get_user_projects_positions)
qed

lemma update_project_twice:
  "pos < length (projects_data st) \<Longrightarrow>
   update_project (update_project st pos f) pos g = update_project st pos (\<lambda>p. g (f p))"
  by (simp add: update_project_def)

lemma update_project_id: "update_project st pos (\<lambda>p. p) = st"
  by (simp add: update_project_def)

lemma edit_steps:
  assumes "pos < length (projects_data st)"
  shows "(let new_target = strip g;
              st1 = (if strip t \<noteq> [] then update_project st pos (\<lambda>p. p\<lparr>title := strip t\<rparr>) else st);
              st2 = (if strip d \<noteq> [] then update_project st1 pos (\<lambda>p. p\<lparr>details := strip d\<rparr>) else st1)
          in (if new_target \<noteq> []
             then (case py_float new_target of
                     None \<Rightarrow> (st2, out1 @ [Print ''Invalid target format, keeping current value.''])
                   | Some target_value \<Rightarrow>
                       if flt (Fin 0) target_value
                       then (update_project st2 pos (\<lambda>p. p\<lparr>total_target := target_value\<rparr>), out1)
                       else (st2, out1 @ [Print ''Invalid target, keeping current value.'']))
             else (st2, out1))) =
         (update_project st pos (\<lambda>p. edited p t d g), out1 @ target_warning g)"
  using assms
  by (auto simp: Let_def update_project_def edited_def target_warning_def split: option.splits)

lemma listed_append: "listed (xs @ ys) = listed xs @ listed ys"
  by (induction xs rule: listed.induct) auto

lemma listed_list_lines: "listed (list_lines ps) = ps"
proof -
  have "listed (map (\<lambda>(i, p). ListLine i p) (zip ns ps)) = ps" if "length ns = length ps" for ns :: "nat list"
    using that by (induction ns ps rule: list_induct2) auto
  from this[of "[1..<Suc (length ps)]"] show ?thesis
    by (simp add: list_lines_def del: upt_Suc)
qed

lemma edit_user_project_complete:
  assumes u: "get_current_user st = Some u"
    and n: "py_int c = Some n" "1 \<le> n" "n \<le> int (length (get_user_projects st (email u)))"
  shows "edit_user_project rt st (c # t # d # g # rest) =
           (let pos = owned_positions st (email u) ! nat (n - 1);
                p = projects_data st ! pos
            in (Inr True,
                save_data rt (update_project st pos (\<lambda>p. edited p t d g)),
                [Print (LF # ''=== EDIT PROJECT ===''), Print ''Your projects:''] @
                list_lines (get_user_projects st (email u)) @
                [Print (LF # ''Editing: '' @ title p), Print ''Press Enter to keep current value.''] @
                target_warning g @ [Print ''Project updated successfully!'']))"
proof -
  have k: "nat (n - 1) < length (get_user_projects st (email u))"
    using n by linarith
  have ne: "get_user_projects st (email u) \<noteq> []"
    using k by auto
  have pos: "owned_positions st (email u) ! nat (n - 1) < length (projects_data st)"
    by (rule owned_positions_nth(1)[OF k])
  have sel: "\<not> (n - 1 < 0 \<or> int (length (get_user_projects st (email u))) \<le> n - 1)"
    using n by linarith
  show ?thesis
    unfolding edit_user_project_def read_def
    using u n(1) ne sel edit_steps[OF pos, of g t d]
    by (simp add: Let_def split: prod.splits)
qed

lemma py_float_empty: "py_float [] = None"
  by (simp add: py_float_def parse_unsigned_def lower_def strip_number_def)

lemma strip_empty: "strip [] = []"
  by (simp add: strip_def)

lemma edited_blank: "edited p [] [] [] = p"
  by (simp add: edited_def strip_empty py_float_empty)

lemma edited_fixed: "same_fixed_fields (edited p t d g) p"
  by (simp add: edited_def same_fixed_fields_def)

lemma edit_user_project_states:
  assumes run: "edit_user_project rt st inp = (r, st', out)"
  shows "(st' = st \<and> (listed out = [] \<or>
            (\<exists>u. get_current_user st = Some u \<and> listed out = get_user_projects st (email u)))) \<or>
         (\<exists>u k t d g. get_current_user st = Some u \<and> k < length (get_user_projects st (email u)) \<and>
            listed out = get_user_projects st (email u) \<and>
            (st' = update_project st (owned_positions st (email u) ! k) (\<lambda>p. edited p t d g) \<or>
             st' = save_data rt (update_project st (owned_positions st (email u) ! k) (\<lambda>p. edited p t d g))))"
proof (cases "get_current_user st")
  case None
  with run show ?thesis by (auto simp: edit_user_project_def)
next
  case (Some u)
  let ?my = "get_user_projects st (email u)"
  show ?thesis
  proof (cases "?my = []")
    case True
    with run Some show ?thesis by (auto simp: edit_user_project_def)
  next
    case ne: False
    have sub: "set ?my \<subseteq> set (projects_data st)"
      by (auto simp: get_user_projects_def)
    show ?thesis
    proof (cases inp)
      case Nil
      with run Some ne sub show ?thesis
        by (auto simp: edit_user_project_def read_def listed_append listed_list_lines)
    next
      case (Cons c inp1)
      show ?thesis
      proof (cases "py_int c")
        case None
        with run Some ne sub Cons show ?thesis
          by (auto simp: edit_user_project_def read_def listed_append listed_list_lines)
      next
        case (Some n)
        show ?thesis
        proof (cases "n - 1 < 0 \<or> int (length ?my) \<le> n - 1")
          case True
          with run \<open>get_current_user st = Some u\<close> ne sub Cons Some show ?thesis
            by (auto simp: edit_user_project_def read_def listed_append listed_list_lines)
        next
          case False
          then have n: "1 \<le> n" "n \<le> int (length ?my)" by linarith+
          then have k: "nat (n - 1) < length ?my" by linarith
          let ?pos = "owned_positions st (email u) ! nat (n - 1)"
          have pos: "?pos < length (projects_data st)"
            by (rule owned_positions_nth(1)[OF k])
          have "\<exists>t d g. listed out = ?my \<and>
                  (st' = update_project st ?pos (\<lambda>p. edited p t d g) \<or>
                   st' = save_data rt (update_project st ?pos (\<lambda>p. edited p t d g)))"
          proof (cases inp1)
            case Nil
            with run \<open>get_current_user st = Some u\<close> ne Cons Some False
            have "st' = st" "listed out = ?my"
              by (auto simp: edit_user_project_def read_def Let_def listed_append listed_list_lines)
            then show ?thesis
              using edited_blank update_project_id[of st ?pos] by (intro exI[of _ "[]"]) simp
          next
            case c1: (Cons t inp2)
            show ?thesis
            proof (cases inp2)
              case Nil
              with run \<open>get_current_user st = Some u\<close> ne Cons Some False c1
              have "st' = (if strip t \<noteq> [] then update_project st ?pos (\<lambda>p. p\<lparr>title := strip t\<rparr>) else st)"
                "listed out = ?my"
                by (auto simp: edit_user_project_def read_def Let_def listed_append listed_list_lines)
              moreover have "(if strip t \<noteq> [] then update_project st ?pos (\<lambda>p. p\<lparr>title := strip t\<rparr>) else st) =
                  update_project st ?pos (\<lambda>p. edited p t [] [])"
                using pos by (simp add: edited_def strip_empty py_float_empty update_project_def)
              ultimately show ?thesis by blast
            next
              case c2: (Cons d inp3)
              show ?thesis
              proof (cases inp3)
                case Nil
                with run \<open>get_current_user st = Some u\<close> ne Cons Some False c1 c2
                have "st' = (let st1 = (if strip t \<noteq> [] then update_project st ?pos (\<lambda>p. p\<lparr>title := strip t\<rparr>) else st)
                             in if strip d \<noteq> [] then update_project st1 ?pos (\<lambda>p. p\<lparr>details := strip d\<rparr>) else st1)"
                  "listed out = ?my"
                  by (auto simp: edit_user_project_def read_def Let_def listed_append listed_list_lines)
                moreover have "(let st1 = (if strip t \<noteq> [] then update_project st ?pos (\<lambda>p. p\<lparr>title := strip t\<rparr>) else st)
                             in if strip d \<noteq> [] then update_project st1 ?pos (\<lambda>p. p\<lparr>details := strip d\<rparr>) else st1) =
                    update_project st ?pos (\<lambda>p. edited p t d [])"
                  using pos by (simp add: edited_def strip_empty py_float_empty update_project_def Let_def)
                ultimately show ?thesis by blast
              next
                case c3: (Cons g rest)
                from run edit_user_project_complete[OF \<open>get_current_user st = Some u\<close> Some n, of rt t d g rest]
                have "st' = save_data rt (update_project st ?pos (\<lambda>p. edited p t d g))"
                  and "listed out = ?my"
                  unfolding Cons c1 c2 c3
                  by (auto simp: Let_def listed_append listed_list_lines target_warning_def split: option.splits)
                then show ?thesis by blast
              qed
            qed
          qed
          with \<open>get_current_user st = Some u\<close> k show ?thesis by blast
        qed
      qed
    qed
  qed
qed

lemma list_remove_cases:
  assumes "pos < length ps"
  shows "\<exists>j<length ps. list_remove ps pos = Inr (take j ps @ drop (Suc j) ps) \<and>
           (j = pos \<or> project_eq (ps ! j) (ps ! pos))"
proof -
  let ?F = "filter (\<lambda>j. j = pos \<or> project_eq (ps ! j) (ps ! pos)) [0..<length ps]"
  from assms have "pos \<in> set ?F" by simp
  then obtain j rest where F: "?F = j # rest" by (cases ?F) auto
  then have "j \<in> set ?F" by simp
  then have "j < length ps" "j = pos \<or> project_eq (ps ! j) (ps ! pos)" by auto
  moreover from F have "list_remove ps pos = Inr (take j ps @ drop (Suc j) ps)"
    by (simp add: list_remove_def)
  ultimately show ?thesis by blast
qed

lemma delete_user_project_states:
  assumes run: "delete_user_project rt st inp = (r, st', out)"
  shows "(st' = st \<and> (listed out = [] \<or>
            (\<exists>u. get_current_user st = Some u \<and> listed out = get_user_projects st (email u)))) \<or>
         (\<exists>u j. get_current_user st = Some u \<and> listed out = get_user_projects st (email u) \<and>
            j < length (projects_data st) \<and> owner_email (projects_data st ! j) = email u \<and>
            st' = save_data rt (st\<lparr>projects_data := take j (projects_data st) @ drop (Suc j) (projects_data st)\<rparr>))"
proof (cases "get_current_user st")
  case None
  with run show ?thesis by (auto simp: delete_user_project_def)
next
  case (Some u)
  let ?my = "get_user_projects st (email u)"
  show ?thesis
  proof (cases "?my = []")
    case True
    with run Some show ?thesis by (auto simp: delete_user_project_def)
  next
    case ne: False
    show ?thesis
    proof (cases inp)
      case Nil
      with run Some ne show ?thesis
        by (auto simp: delete_user_project_def read_def listed_append listed_list_lines)
    next
      case (Cons c inp1)
      show ?thesis
      proof (cases "py_int c")
        case None
        with run Some ne Cons show ?thesis
          by (auto simp: delete_user_project_def read_def listed_append listed_list_lines)
      next
        case (Some n)
        show ?thesis
        proof (cases "n - 1 < 0 \<or> int (length ?my) \<le> n - 1")
          case True
          with run \<open>get_current_user st = Some u\<close> ne Cons Some show ?thesis
            by (auto simp: delete_user_project_def read_def listed_append listed_list_lines)
        next
          case False
          then have k: "nat (n - 1) < length ?my" by linarith
          let ?pos = "owned_positions st (email u) ! nat (n - 1)"
          have pos: "?pos < length (projects_data st)"
            by (rule owned_positions_nth(1)[OF k])
          have own: "owner_email (projects_data st ! ?pos) = email u"
            by (rule owned_positions_nth(3)[OF k])
          from list_remove_cases[OF pos] obtain j where j: "j < length (projects_data st)"
            "list_remove (projects_data st) ?pos = Inr (take j (projects_data st) @ drop (Suc j) (projects_data st))"
            "j = ?pos \<or> project_eq (projects_data st ! j) (projects_data st ! ?pos)" by blast
          from j(3) own have oj: "owner_email (projects_data st ! j) = email u"
            by (auto simp: project_eq_def)
          show ?thesis
          proof (cases inp1)
            case Nil
            with run \<open>get_current_user st = Some u\<close> ne Cons Some False show ?thesis
              by (auto simp: delete_user_project_def read_def Let_def listed_append listed_list_lines)
          next
            case c1: (Cons y rest)
            show ?thesis
            proof (cases "lower y = ''y''")
              case True
              with run \<open>get_current_user st = Some u\<close> ne Cons Some False c1 j(2)
              have "st' = save_data rt (st\<lparr>projects_data := take j (projects_data st) @ drop (Suc j) (projects_data st)\<rparr>)"
                "listed out = ?my"
                by (auto simp: delete_user_project_def read_def Let_def listed_append listed_list_lines)
              with \<open>get_current_user st = Some u\<close> j(1) oj show ?thesis by blast
            next
              case no: False
              with run \<open>get_current_user st = Some u\<close> ne Cons Some False c1 show ?thesis
                by (auto simp: delete_user_project_def read_def Let_def listed_append listed_list_lines)
            qed
          qed
        qed
      qed
    qed
  qed
qed

lemma filter_list_update_other:
  assumes "pos < length ps" "\<not> Q (ps ! pos)" "\<not> Q y"
  shows "filter Q (ps[pos := y]) = filter Q ps"
proof -
  have "filter Q (ps[pos := y]) = filter Q (take pos ps @ y # drop (Suc pos) ps)"
    using assms(1) by (simp add: upd_conv_take_nth_drop)
  also have "\<dots> = filter Q (take pos ps @ ps ! pos # drop (Suc pos) ps)"
    using assms(2,3) by simp
  also have "\<dots> = filter Q ps"
    using assms(1) by (simp add: id_take_nth_drop[symmetric])
  finally show ?thesis .
qed

lemma filter_remove_other:
  assumes "j < length ps" "\<not> Q (ps ! j)"
  shows "filter Q (take j ps @ drop (Suc j) ps) = filter Q ps"
proof -
  have "filter Q ps = filter Q (take j ps @ ps ! j # drop (Suc j) ps)"
    using assms(1) by (simp add: id_take_nth_drop[symmetric])
  then show ?thesis using assms(2) by simp
qed

lemma sample_session:
  "get_current_user ann_session = Some ann"
  "email ann = ''ann@example.com''"
  "get_user_projects ann_session ''ann@example.com'' = [well]"
  "owned_positions ann_session ''ann@example.com'' = [1]"
  "projects_data ann_session = [school, well]"
  "users_data ann_session = [(''ann@example.com'', ann), (''bob@example.com'', bob)]"
  "filter (\<lambda>p. owner_email p \<noteq> ''ann@example.com'') [school, well] = [school]"
  by (simp_all add: ann_session_def get_current_user_def get_user_projects_def owned_positions_def
        dict_get_def sample_eval upt_rec)

lemma sample_answers:
  "py_int ''1'' = Some 1"
  "py_int ''2'' = Some 2"
  "edited well ''Deep well'' '' '' ''-5'' = well\<lparr>title := ''Deep well''\<rparr>"
  "target_warning ''-5'' = [Print ''Invalid target, keeping current value.'']"
  by (simp_all add: py_int_def edited_def target_warning_def flt_def feq_def float_eval string_eval well_def)

lemma edit_user_project_state_form:
  assumes run: "edit_user_project rt st inp = (r, st', out)"
  shows "\<exists>pos t d g. st' = update_project st pos (\<lambda>p. edited p t d g) \<or>
           st' = save_data rt (update_project st pos (\<lambda>p. edited p t d g))"
proof -
  from edit_user_project_states[OF run]
  consider "st' = st"
    | pos t d g where "st' = update_project st pos (\<lambda>p. edited p t d g) \<or>
           st' = save_data rt (update_project st pos (\<lambda>p. edited p t d g))"
    by blast
  then show ?thesis
  proof cases
    case 1
    then have "st' = update_project st 0 (\<lambda>p. edited p [] [] [])"
      by (simp add: edited_blank update_project_id)
    then show ?thesis by blast
  next
    case 2
    then show ?thesis by blast
  qed
qed

lemma update_project_frame:
  assumes "st' = update_project st pos (\<lambda>p. edited p t d g) \<or>
           st' = save_data rt (update_project st pos (\<lambda>p. edited p t d g))"
  shows "users_data st' = users_data st" "current_user_email st' = current_user_email st"
    "length (projects_data st') = length (projects_data st)"
    "i < length (projects_data st) \<Longrightarrow> same_fixed_fields (projects_data st' ! i) (projects_data st ! i)"
    "i < length (projects_data st) \<Longrightarrow> i \<noteq> pos \<Longrightarrow> projects_data st' ! i = projects_data st ! i"
proof -
  have p: "projects_data st' = (projects_data st)[pos := edited (projects_data st ! pos) t d g]"
    using assms by (auto simp: update_project_def save_data_def)
  show "users_data st' = users_data st" "current_user_email st' = current_user_email st"
    using assms by (auto simp: update_project_def save_data_def)
  show "length (projects_data st') = length (projects_data st)"
    using p by simp
  show "same_fixed_fields (projects_data st' ! i) (projects_data st ! i)" if "i < length (projects_data st)"
  proof (cases "i = pos")
    case True
    with that p show ?thesis by (simp add: edited_fixed)
  next
    case False
    with that p show ?thesis by (simp add: same_fixed_fields_def)
  qed
  show "projects_data st' ! i = projects_data st ! i" if "i < length (projects_data st)" "i \<noteq> pos"
    using that p by simp
qed

lemma edit_user_project_frame_run:
  assumes run: "edit_user_project rt st inp = (r, st', out)"
  shows "users_data st' = users_data st \<and> current_user_email st' = current_user_email st \<and>
      length (projects_data st') = length (projects_data st) \<and>
      (\<exists>pos. \<forall>i<length (projects_data st).
          same_fixed_fields (projects_data st' ! i) (projects_data st ! i) \<and>
          (i \<noteq> pos \<longrightarrow> projects_data st' ! i = projects_data st ! i))"
proof -
  from edit_user_project_state_form[OF run] obtain pos t d g where
    s: "st' = update_project st pos (\<lambda>p. edited p t d g) \<or>
        st' = save_data rt (update_project st pos (\<lambda>p. edited p t d g))" by blast
  note f = update_project_frame[OF s]
  have "\<forall>i<length (projects_data st).
          same_fixed_fields (projects_data st' ! i) (projects_data st ! i) \<and>
          (i \<noteq> pos \<longrightarrow> projects_data st' ! i = projects_data st ! i)"
    using f(4,5) by blast
  then have "\<exists>pos. \<forall>i<length (projects_data st).
          same_fixed_fields (projects_data st' ! i) (projects_data st ! i) \<and>
          (i \<noteq> pos \<longrightarrow> projects_data st' ! i = projects_data st ! i)" ..
  with f(1,2,3) show ?thesis by blast
qed

lemma edit_user_project_frame_selected:
  assumes h: "get_current_user st = Some u \<and> py_int c = Some n \<and> 1 \<le> n \<and>
    n \<le> int (length (get_user_projects st (email u)))"
  shows "let pos = owned_positions st (email u) ! nat (n - 1); p = projects_data st ! pos
       in p = get_user_projects st (email u) ! nat (n - 1) \<and>
          edit_user_project rt st (c # t # d # g # rest) =
            (Inr True,
             save_data rt (st\<lparr>projects_data := (projects_data st)[pos := edited p t d g]\<rparr>),
             [Print (LF # ''=== EDIT PROJECT ===''), Print ''Your projects:''] @
             list_lines (get_user_projects st (email u)) @
             [Print (LF # ''Editing: '' @ title p), Print ''Press Enter to keep current value.''] @
             target_warning g @ [Print ''Project updated successfully!''])"
proof -
  from h have k: "nat (n - 1) < length (get_user_projects st (email u))" by linarith
  from h have e: "edit_user_project rt st (c # t # d # g # rest) =
           (let pos = owned_positions st (email u) ! nat (n - 1);
                p = projects_data st ! pos
            in (Inr True,
                save_data rt (update_project st pos (\<lambda>p. edited p t d g)),
                [Print (LF # ''=== EDIT PROJECT ===''), Print ''Your projects:''] @
                list_lines (get_user_projects st (email u)) @
                [Print (LF # ''Editing: '' @ title p), Print ''Press Enter to keep current value.''] @
                target_warning g @ [Print ''Project updated successfully!'']))"
    by (intro edit_user_project_complete) simp_all
  show ?thesis
    unfolding e using owned_positions_nth(2)[OF k]
    by (simp add: Let_def update_project_def)
qed

lemma edited_target:
  "strip g = [] \<longrightarrow> total_target (edited q t d g) = total_target q \<and> target_warning g = []"
  "strip g \<noteq> [] \<and> py_float (strip g) = None \<longrightarrow>
      total_target (edited q t d g) = total_target q \<and>
      target_warning g = [Print ''Invalid target format, keeping current value.'']"
  "py_float (strip g) = Some v \<and> \<not> flt (Fin 0) v \<longrightarrow>
      total_target (edited q t d g) = total_target q \<and>
      target_warning g = [Print ''Invalid target, keeping current value.'']"
  "py_float (strip g) = Some v \<and> flt (Fin 0) v \<longrightarrow>
      total_target (edited q t d g) = v \<and> target_warning g = []"
proof -
  have ne: "strip g \<noteq> []" if "py_float (strip g) = Some w" for w
    using that py_float_empty by auto
  show "strip g = [] \<longrightarrow> total_target (edited q t d g) = total_target q \<and> target_warning g = []"
    by (simp add: edited_def target_warning_def py_float_empty)
  show "strip g \<noteq> [] \<and> py_float (strip g) = None \<longrightarrow>
      total_target (edited q t d g) = total_target q \<and>
      target_warning g = [Print ''Invalid target format, keeping current value.'']"
    by (simp add: edited_def target_warning_def)
  show "py_float (strip g) = Some v \<and> \<not> flt (Fin 0) v \<longrightarrow>
      total_target (edited q t d g) = total_target q \<and>
      target_warning g = [Print ''Invalid target, keeping current value.'']"
    using ne[of v] by (simp add: edited_def target_warning_def)
  show "py_float (strip g) = Some v \<and> flt (Fin 0) v \<longrightarrow>
      total_target (edited q t d g) = v \<and> target_warning g = []"
    using ne[of v] by (simp add: edited_def target_warning_def)
qed

lemma edited_text:
  "title (edited q t d g) = (if strip t = [] then title q else strip t)"
  "details (edited q t d g) = (if strip d = [] then details q else strip d)"
  by (simp_all add: edited_def)

text \<open>
  C7. Whatever is typed, a run of \<^verbatim>\<open>edit_user_project\<close> leaves the users registry and the
  current-user pointer as they were and the projects registry of the same length, with
  every project but one unchanged and, in every project, the start date, end date,
  owner, creation time and current amount unchanged. When the user is logged in and the
  number typed selects one of their projects, and three more lines are typed, the run
  returns \<^verbatim>\<open>True\<close>, the selected project (the one with that number in the user's own
  list) becomes \<open>edited\<close> of itself and the registries are saved: the title and the
  details are the stripped lines typed, or the old values when these are blank; the
  target is the number typed when it parses and is greater than 0, and otherwise the old
  value, with a warning when the line is not blank.
\<close>

theorem edit_user_project_frame:
  "(edit_user_project rt st inp = (r, st', out) \<longrightarrow>
      users_data st' = users_data st \<and> current_user_email st' = current_user_email st \<and>
      length (projects_data st') = length (projects_data st) \<and>
      (\<exists>pos. \<forall>i<length (projects_data st).
          same_fixed_fields (projects_data st' ! i) (projects_data st ! i) \<and>
          (i \<noteq> pos \<longrightarrow> projects_data st' ! i = projects_data st ! i))) \<and>
   (get_current_user st = Some u \<and> py_int c = Some n \<and> 1 \<le> n \<and>
    n \<le> int (length (get_user_projects st (email u))) \<longrightarrow>
      (let pos = owned_positions st (email u) ! nat (n - 1); p = projects_data st ! pos
       in p = get_user_projects st (email u) ! nat (n - 1) \<and>
          edit_user_project rt st (c # t # d # g # rest) =
            (Inr True,
             save_data rt (st\<lparr>projects_data := (projects_data st)[pos := edited p t d g]\<rparr>),
             [Print (LF # ''=== EDIT PROJECT ===''), Print ''Your projects:''] @
             list_lines (get_user_projects st (email u)) @
             [Print (LF # ''Editing: '' @ title p), Print ''Press Enter to keep current value.''] @
             target_warning g @ [Print ''Project updated successfully!'']))) \<and>
   same_fixed_fields (edited q t d g) q \<and>
   title (edited q t d g) = (if strip t = [] then title q else strip t) \<and>
   details (edited q t d g) = (if strip d = [] then details q else strip d) \<and>
   (strip g = [] \<longrightarrow> total_target (edited q t d g) = total_target q \<and> target_warning g = []) \<and>
   (strip g \<noteq> [] \<and> py_float (strip g) = None \<longrightarrow>
      total_target (edited q t d g) = total_target q \<and>
      target_warning g = [Print ''Invalid target format, keeping current value.'']) \<and>
   (py_float (strip g) = Some v \<and> \<not> flt (Fin 0) v \<longrightarrow>
      total_target (edited q t d g) = total_target q \<and>
      target_warning g = [Print ''Invalid target, keeping current value.'']) \<and>
   (py_float (strip g) = Some v \<and> flt (Fin 0) v \<longrightarrow>
      total_target (edited q t d g) = v \<and> target_warning g = [])"
  apply (intro conjI)
          apply (rule impI, erule edit_user_project_frame_run)
         apply (rule impI, erule edit_user_project_frame_selected)
        apply (rule edited_fixed)
       apply (rule edited_text(1))
      apply (rule edited_text(2))
     apply (rule edited_target(1))
    apply (rule edited_target(2))
   apply (rule edited_target(3))
  apply (rule edited_target(4))
  done

theorem edit_user_project_frame_witness:
  "fst (edit_user_project sample_runtime ann_session [''1'', ''Deep well'', '' '', ''-5'']) = Inr True \<and>
   projects_data (fst (snd (edit_user_project sample_runtime ann_session [''1'', ''Deep well'', '' '', ''-5'']))) =
     [school, well\<lparr>title := ''Deep well''\<rparr>] \<and>
   users_data (fst (snd (edit_user_project sample_runtime ann_session [''1'', ''Deep well'', '' '', ''-5'']))) =
     users_data ann_session"
proof -
  let ?run = "edit_user_project sample_runtime ann_session [''1'', ''Deep well'', '' '', ''-5'']"
  have "?run = (Inr True,
           save_data sample_runtime (ann_session\<lparr>projects_data := [school, well\<lparr>title := ''Deep well''\<rparr>]\<rparr>),
           [Print (LF # ''=== EDIT PROJECT ===''), Print ''Your projects:''] @ list_lines [well] @
           [Print (LF # ''Editing: '' @ title well), Print ''Press Enter to keep current value.''] @
           [Print ''Invalid target, keeping current value.''] @ [Print ''Project updated successfully!''])"
    using edit_user_project_frame[where st = ann_session and u = ann and c = "''1''" and n = 1
        and rt = sample_runtime and t = "''Deep well''" and d = "'' ''" and g = "''-5''" and rest = "[]",
        THEN conjunct2, THEN conjunct1]
    by (simp add: sample_session sample_answers Let_def)
  moreover have "users_data (fst (snd ?run)) = users_data ann_session"
    using edit_user_project_frame[where st = ann_session and rt = sample_runtime
        and inp = "[''1'', ''Deep well'', '' '', ''-5'']" and r = "fst ?run" and st' = "fst (snd ?run)"
        and out = "snd (snd ?run)", THEN conjunct1]
    by simp
  ultimately show ?thesis by (simp add: save_data_def)
qed

text \<open>
  C2. Let the current user be \<open>a\<close>. Whatever is typed, a run of \<^verbatim>\<open>edit_user_project\<close> or of
  \<^verbatim>\<open>delete_user_project\<close> lists only projects of the registry whose owner is the email of
  \<open>a\<close>, and the projects of the other owners are the same before and after the run, in
  the same order: no number typed reaches one of them. The users registry and the
  current-user pointer are unchanged as well.
\<close>

theorem owner_scoping:
  assumes a: "get_current_user st = Some a"
    and run: "edit_user_project rt st inp = (r, st', out) \<or> delete_user_project rt st inp = (r, st', out)"
  shows "list_all (\<lambda>p. owner_email p = email a \<and> p \<in> set (projects_data st)) (listed out) \<and>
         filter (\<lambda>p. owner_email p \<noteq> email a) (projects_data st') =
           filter (\<lambda>p. owner_email p \<noteq> email a) (projects_data st) \<and>
         users_data st' = users_data st \<and> current_user_email st' = current_user_email st"
proof -
  let ?other = "\<lambda>p. owner_email p \<noteq> email a"
  have my: "list_all (\<lambda>p. owner_email p = email a \<and> p \<in> set (projects_data st)) (get_user_projects st (email a))"
    by (auto simp: get_user_projects_def list_all_iff)
  have same: ?thesis
    if "st' = st" "listed out = [] \<or> (\<exists>u. get_current_user st = Some u \<and> listed out = get_user_projects st (email u))"
    using that a my by auto
  from run show ?thesis
  proof
    assume "edit_user_project rt st inp = (r, st', out)"
    from edit_user_project_states[OF this]
    consider "st' = st" "listed out = [] \<or> (\<exists>u. get_current_user st = Some u \<and> listed out = get_user_projects st (email u))"
      | k t d g where "k < length (get_user_projects st (email a))" "listed out = get_user_projects st (email a)"
          "st' = update_project st (owned_positions st (email a) ! k) (\<lambda>p. edited p t d g) \<or>
           st' = save_data rt (update_project st (owned_positions st (email a) ! k) (\<lambda>p. edited p t d g))"
      using a by auto
    then show ?thesis
    proof cases
      case 1
      then show ?thesis by (rule same)
    next
      case 2
      let ?pos = "owned_positions st (email a) ! k"
      have pos: "?pos < length (projects_data st)" "owner_email (projects_data st ! ?pos) = email a"
        using owned_positions_nth(1,3)[OF 2(1)] by simp_all
      have "filter ?other ((projects_data st)[?pos := edited (projects_data st ! ?pos) t d g]) =
            filter ?other (projects_data st)"
        using pos by (intro filter_list_update_other) (simp_all add: edited_def)
      with 2 my show ?thesis
        by (auto simp: update_project_def save_data_def)
    qed
  next
    assume "delete_user_project rt st inp = (r, st', out)"
    from delete_user_project_states[OF this]
    consider "st' = st" "listed out = [] \<or> (\<exists>u. get_current_user st = Some u \<and> listed out = get_user_projects st (email u))"
      | j where "listed out = get_user_projects st (email a)" "j < length (projects_data st)"
          "owner_email (projects_data st ! j) = email a"
          "st' = save_data rt (st\<lparr>projects_data := take j (projects_data st) @ drop (Suc j) (projects_data st)\<rparr>)"
      using a by auto
    then show ?thesis
    proof cases
      case 1
      then show ?thesis by (rule same)
    next
      case 2
      have "filter ?other (take j (projects_data st) @ drop (Suc j) (projects_data st)) =
            filter ?other (projects_data st)"
        using 2(2,3) by (intro filter_remove_other) simp_all
      with 2 my show ?thesis
        by (auto simp: save_data_def)
    qed
  qed
qed

theorem owner_scoping_witness:
  "filter (\<lambda>p. owner_email p \<noteq> ''ann@example.com'')
     (projects_data (fst (snd (edit_user_project sample_runtime ann_session [''1'', ''Deep well'', '' '', ''750''])))) =
     [school] \<and>
   filter (\<lambda>p. owner_email p \<noteq> ''ann@example.com'')
     (projects_data (fst (snd (delete_user_project sample_runtime ann_session [''2'', ''y''])))) = [school] \<and>
   filter (\<lambda>p. owner_email p \<noteq> ''ann@example.com'')
     (projects_data (fst (snd (delete_user_project sample_runtime ann_session [''1'', ''y''])))) = [school] \<and>
   list_all (\<lambda>p. owner_email p = ''ann@example.com'' \<and> p \<in> set [school, well])
     (listed (snd (snd (delete_user_project sample_runtime ann_session [''1'', ''y'']))))"
proof -
  have run: "x = (fst x, fst (snd x), snd (snd x))" for x :: "bool outcome"
    by simp
  note s = owner_scoping[OF sample_session(1), unfolded sample_session]
  show ?thesis
    using s[OF disjI1[OF run[of "edit_user_project sample_runtime ann_session [''1'', ''Deep well'', '' '', ''750'']"]]]
      s[OF disjI2[OF run[of "delete_user_project sample_runtime ann_session [''2'', ''y'']"]]]
      s[OF disjI2[OF run[of "delete_user_project sample_runtime ann_session [''1'', ''y'']"]]]
    by simp
qed

subsection \<open>The progress of a project and the target of a new project\<close>

text \<open>
  The blocks printed for projects whose targets are not zero carry the progress
  \<^verbatim>\<open>(current_amount / total_target) * 100\<close>, and the division raises exactly when a
  target is zero. A project that \<^verbatim>\<open>create_new_project\<close> appends has a target for which
  \<^verbatim>\<open>total_target <= 0\<close> is false: it is not zero, and it is greater than 0 or NaN.
\<close>

lemma show_projects_progress:
  "\<forall>p\<in>set ps. total_target p \<noteq> Fin 0 \<Longrightarrow>
   show_projects entry i ps out =
     (Inr (), out @ map (\<lambda>(k, p). entry k p (progress p)) (zip [i..<i + length ps] ps))"
proof (induction ps arbitrary: i out)
  case Nil
  then show ?case by simp
next
  case (Cons p ps)
  then obtain q where q: "fdiv (current_amount p) (total_target p) = Inr q"
    by (cases "fdiv (current_amount p) (total_target p)") (auto simp: fdiv_error)
  have "[i..<i + length (p # ps)] = i # [Suc i..<Suc i + length ps]"
    by (simp add: upt_rec)
  with Cons q show ?case by (simp add: progress_def)
qed

lemma show_projects_zero:
  "\<exists>p\<in>set ps. total_target p = Fin 0 \<Longrightarrow> fst (show_projects entry i ps out) = Inl ZeroDivisionError"
proof (induction ps arbitrary: i out)
  case Nil
  then show ?case by simp
next
  case (Cons p ps)
  show ?case
  proof (cases "fdiv (current_amount p) (total_target p)")
    case (Inl e)
    then show ?thesis by (simp add: fdiv_error)
  next
    case (Inr q)
    then have "total_target p \<noteq> Fin 0"
      using fdiv_error[of "current_amount p" "total_target p"] by auto
    with Cons Inr show ?thesis by simp
  qed
qed

lemma view_all_projects_progress:
  "(\<forall>p\<in>set (projects_data st). total_target p \<noteq> Fin 0) \<Longrightarrow> projects_data st \<noteq> [] \<Longrightarrow>
   view_all_projects st =
     (Inr (), st, Print (LF # ''=== ALL PROJECTS ==='') #
        map (\<lambda>(k, p). ProjectEntry k p (progress p)) (zip [1..<1 + length (projects_data st)] (projects_data st)))"
  by (simp add: view_all_projects_def show_projects_progress del: upt_Suc)

lemma fle_zero_cases: "\<not> fle x (Fin 0) \<longleftrightarrow> flt (Fin 0) x \<or> x = NaN"
  by (cases x) (auto simp: flt_def feq_def)

lemma create_new_project_target:
  assumes "create_new_project rt st inp = (Inr True, st', out)"
  shows "\<exists>p. projects_data st' = projects_data st @ [p] \<and> \<not> fle (total_target p) (Fin 0) \<and>
             total_target p \<noteq> Fin 0 \<and> (flt (Fin 0) (total_target p) \<or> total_target p = NaN)"
proof -
  from assms obtain p where "projects_data st' = projects_data st @ [p]" "\<not> fle (total_target p) (Fin 0)"
    by (auto simp: create_new_project_def read_def Let_def save_data_def create_project_data_def
             split: option.splits list.splits if_splits prod.splits)
  moreover from this(2) have "total_target p \<noteq> Fin 0" by auto
  ultimately show ?thesis using fle_zero_cases by blast
qed

lemma sample_clock:
  "get_current_user ann_session = Some ann"
  "py_float ''nan'' = Some NaN"
  "validate_date ''2025-06-01''" "validate_date ''2025-06-30''"
  "validate_date_range (now_dt sample_runtime) ''2025-06-01'' ''2025-06-30'' = (True, [])"
  "strip ''Roof'' = ''Roof''" "strip ''New tiles'' = ''New tiles''"
  "strip ''2025-06-01'' = ''2025-06-01''" "strip ''2025-06-30'' = ''2025-06-30''"
  by (simp_all add: ann_session_def get_current_user_def dict_get_def sample_eval float_eval date_eval string_eval)

lemma sample_roof:
  "create_new_project sample_runtime ann_session nan_answers =
     (Inr True,
      save_data sample_runtime (ann_session\<lparr>projects_data := projects_data ann_session @ [roof]\<rparr>),
      [Print (LF # ''=== CREATE PROJECT ===''), Print ''Project created successfully!''])"
proof -
  have "now_iso sample_runtime = ''2025-01-01T10:00:00''" "email ann = ''ann@example.com''"
    by (simp_all add: sample_runtime_def ann_def)
  then show ?thesis
    by (simp add: create_new_project_def read_def nan_answers_def sample_clock create_project_data_def
          roof_def Let_def)
qed

lemma sample_nan_edit:
  "fst (snd (edit_user_project sample_runtime ann_session [''1'', [], [], ''nan''])) =
     save_data sample_runtime ann_session"
proof -
  have w: "edited well [] [] ''nan'' = well"
    by (simp add: edited_def strip_empty sample_clock flt_def feq_def strip_def isspace_def code_def)
  have r: "ann_session\<lparr>projects_data := [school, well]\<rparr> = ann_session"
    by (simp add: ann_session_def sample_state_def)
  have "fst (snd (edit_user_project sample_runtime ann_session [''1'', [], [], ''nan''])) =
        save_data sample_runtime (ann_session\<lparr>projects_data := [school, well]\<rparr>)"
    using w edit_user_project_complete[of ann_session ann "''1''" 1 sample_runtime "[]" "[]" "''nan''" "[]"]
    by (simp add: sample_session sample_answers Let_def update_project_def)
  then show ?thesis unfolding r .
qed

text \<open>
  C9. The user \<^verbatim>\<open>ann@example.com\<close> is logged in and answers the prompts of
  \<^verbatim>\<open>create_new_project\<close> with a title, details, the target \<^verbatim>\<open>nan\<close> and two dates. The
  function returns \<^verbatim>\<open>True\<close> and appends a project whose target is NaN, which is not
  greater than 0: \<^verbatim>\<open>float('nan') <= 0\<close> is false, so the check that rejects a target
  that is not positive lets it through. The same answer typed at the target prompt of
  \<^verbatim>\<open>edit_user_project\<close>, whose check is \<^verbatim>\<open>target_value > 0\<close>, leaves the target as it
  was.
\<close>

theorem create_new_project_accepts_nan:
  "create_new_project sample_runtime ann_session nan_answers =
     (Inr True,
      save_data sample_runtime (ann_session\<lparr>projects_data := projects_data ann_session @ [roof]\<rparr>),
      [Print (LF # ''=== CREATE PROJECT ===''), Print ''Project created successfully!'']) \<and>
   total_target roof = NaN \<and> \<not> flt (Fin 0) (total_target roof) \<and>
   fst (snd (edit_user_project sample_runtime ann_session [''1'', [], [], ''nan''])) =
     save_data sample_runtime ann_session"
  using sample_roof sample_nan_edit by (simp add: roof_def flt_def)

subsection \<open>Saving and loading\<close>






































end
